theory Spec2Isabelle
  imports Complex_Main
begin

section \<open>JavaScript values\<close>

text \<open>
  The values that \<^verbatim>\<open>app.js\<close> receives from the remote API and keeps in its
  \<^verbatim>\<open>state\<close> object. A finite number is its mathematical value (the code modelled
  here only tests numbers for zero and compares them), the two infinities are values of
  their own; a string is the list of its code units, each below 256; an object is the
  list of its own properties, each key once.
\<close>

datatype jsval =
    JUndefined
  | JNull
  | JBool bool
  | JNum real
  | JInfinity
  | JNegInfinity
  | JStr string
  | JArr "jsval list"
  | JObj "(string \<times> jsval) list"

text \<open>ToBoolean: what \<^verbatim>\<open>!v\<close>, \<^verbatim>\<open>if (v)\<close> and \<^verbatim>\<open>a || b\<close> test.\<close>

fun truthy :: "jsval \<Rightarrow> bool" where
  "truthy JUndefined = False"
| "truthy JNull = False"
| "truthy (JBool b) = b"
| "truthy (JNum r) = (r \<noteq> 0)"
| "truthy JInfinity = True"
| "truthy JNegInfinity = True"
| "truthy (JStr s) = (s \<noteq> [])"
| "truthy (JArr xs) = True"
| "truthy (JObj kvs) = True"

text \<open>\<^verbatim>\<open>a || b\<close> and \<^verbatim>\<open>a && b\<close> on values already computed.\<close>

definition js_or :: "jsval \<Rightarrow> jsval \<Rightarrow> jsval" where
  "js_or a b = (if truthy a then a else b)"

definition js_and :: "jsval \<Rightarrow> jsval \<Rightarrow> jsval" where
  "js_and a b = (if truthy a then b else a)"

text \<open>
  The conversion of a value to a string, as a template literal, the concatenation with a
  string, the assignment to \<^verbatim>\<open>textContent\<close>, \<^verbatim>\<open>new Error(v)\<close> and
  \<^verbatim>\<open>localStorage.setItem\<close> make it, throws a TypeError where it finds no method
  that yields a primitive value. A value parsed from JSON holds no function, so an object
  with a property of its own named \<^verbatim>\<open>toString\<close> hides the inherited method and
  cannot be converted (its \<^verbatim>\<open>valueOf\<close>, its own or the inherited one, yields no
  primitive value either); every other object is converted by the inherited method. An
  array is converted by joining the conversions of its elements, \<^verbatim>\<open>null\<close> as the
  empty string.
\<close>

fun str_throws :: "jsval \<Rightarrow> bool" where
  "str_throws (JObj kvs) = (map_of kvs ''toString'' \<noteq> None)"
| "str_throws (JArr xs) = list_ex str_throws xs"
| "str_throws v = False"

text \<open>
  Exceptions of the program: the engine's TypeError on reading a property of
  \<^verbatim>\<open>null\<close> or \<^verbatim>\<open>undefined\<close> and on a value that cannot be converted to a
  string, the SyntaxError of a body that is not JSON, a rejected \<^verbatim>\<open>fetch\<close>, the
  RangeError of an invalid date, the QuotaExceededError of a \<^verbatim>\<open>localStorage\<close> that
  takes no more, and the errors the program throws itself, which carry their message.
\<close>

datatype jstext =
    Lit string
  | ToStr jsval
  | HttpStatus nat
  | Cat jstext jstext
  | EngineText string
  | OrElse jstext string

text \<open>
  A \<^typ>\<open>jstext\<close> is a string the program builds, kept symbolic where the program converts
  a value: \<open>ToStr v\<close> is \<^verbatim>\<open>String(v)\<close>, \<open>HttpStatus n\<close> is
  \<^verbatim>\<open>`HTTP ${n}`\<close>, \<open>Cat a b\<close> is \<^verbatim>\<open>a + b\<close>, \<open>EngineText k\<close> is the engine's own
  wording for the built-in error \<open>k\<close>, and \<open>OrElse t d\<close> is \<^verbatim>\<open>t || d\<close>
  (the default \<open>d\<close> when \<open>t\<close> is the empty string).
\<close>

datatype js_error =
    TypeError
  | SyntaxError
  | RangeError
  | QuotaExceededError
  | NetworkError jstext
  | HttpError nat jsval jstext
  | Error jstext

fun err_message :: "js_error \<Rightarrow> jstext" where
  "err_message TypeError = EngineText ''TypeError''"
| "err_message SyntaxError = EngineText ''SyntaxError''"
| "err_message RangeError = EngineText ''RangeError''"
| "err_message QuotaExceededError = EngineText ''QuotaExceededError''"
| "err_message (NetworkError t) = t"
| "err_message (HttpError n b t) = t"
| "err_message (Error t) = t"

text \<open>
  \<^verbatim>\<open>v.k\<close>: a TypeError on \<^verbatim>\<open>null\<close> and \<^verbatim>\<open>undefined\<close>, the own property of an
  object, and \<^verbatim>\<open>undefined\<close> otherwise (none of the keys the program reads is a
  built-in property of a string, a number, a boolean or an array).
\<close>

fun get_prop :: "jsval \<Rightarrow> string \<Rightarrow> js_error + jsval" where
  "get_prop JUndefined k = Inl TypeError"
| "get_prop JNull k = Inl TypeError"
| "get_prop (JObj kvs) k = Inr (case map_of kvs k of None \<Rightarrow> JUndefined | Some v \<Rightarrow> v)"
| "get_prop v k = Inr JUndefined"

text \<open>The same read on a value known not to be \<^verbatim>\<open>null\<close> or \<^verbatim>\<open>undefined\<close>.\<close>

fun get_field :: "jsval \<Rightarrow> string \<Rightarrow> jsval" where
  "get_field (JObj kvs) k = (case map_of kvs k of None \<Rightarrow> JUndefined | Some v \<Rightarrow> v)"
| "get_field v k = JUndefined"

definition nullish :: "jsval \<Rightarrow> bool" where
  "nullish v = (v = JUndefined \<or> v = JNull)"

section \<open>Strings: trim, the mobile pattern, parseInt\<close>

text \<open>
  The white space and line terminators that \<^verbatim>\<open>String.prototype.trim\<close> and
  \<^verbatim>\<open>parseInt\<close> strip, among the code units below 256: TAB, LF, VT, FF, CR, SP, NBSP.
\<close>

definition is_ws :: "char \<Rightarrow> bool" where
  "is_ws c = (c \<in> set [CHR 0x09, CHR 0x0A, CHR 0x0B, CHR 0x0C, CHR 0x0D, CHR 0x20, CHR 0xA0])"

definition js_trim :: "string \<Rightarrow> string" where
  "js_trim s = rev (dropWhile is_ws (rev (dropWhile is_ws s)))"

text \<open>\<^verbatim>\<open>\d\<close> in a regular expression without the unicode-sets flag: 0 to 9.\<close>

definition is_digit :: "char \<Rightarrow> bool" where
  "is_digit c = (c \<in> set ''0123456789'')"

definition digit_val :: "char \<Rightarrow> nat" where
  "digit_val c = of_char c - 48"

definition digits_value :: "string \<Rightarrow> nat" where
  "digits_value z = foldl (\<lambda>a c. 10 * a + digit_val c) 0 z"

text \<open>\<^verbatim>\<open>/^\d{10}$/.test(s)\<close>: without the multiline flag, the whole string is ten digits.\<close>

definition matches_ten_digits :: "string \<Rightarrow> bool" where
  "matches_ten_digits s = (length s = 10 \<and> list_all is_digit s)"

text \<open>
  \<^verbatim>\<open>parseInt(s, 10)\<close>: skip leading white space, take one sign, then the longest
  prefix of decimal digits; \<^verbatim>\<open>NaN\<close> (here \<open>None\<close>) when that prefix is empty.
  Whatever follows the digits is ignored. The result here is the mathematical integer;
  the number that the engine returns is \<open>parsed_number\<close> of it, below, and the rounding
  changes neither whether the result is \<^verbatim>\<open>NaN\<close> nor how it compares with 18.
\<close>

definition parseInt10 :: "string \<Rightarrow> int option" where
  "parseInt10 s =
     (let t = dropWhile is_ws s;
          neg = (case t of [] \<Rightarrow> False | c # r \<Rightarrow> c = CHR ''-'');
          u = (case t of [] \<Rightarrow> [] | c # r \<Rightarrow> if c = CHR ''+'' \<or> c = CHR ''-'' then r else t);
          z = takeWhile is_digit u
      in if z = [] then None
         else Some (if neg then - int (digits_value z) else int (digits_value z)))"

section \<open>The remote client\<close>

text \<open>
  What \<^verbatim>\<open>fetch\<close> hands back: a rejection (no response at all), or a response with
  its \<^verbatim>\<open>ok\<close> flag and status, whether its content type includes
  \<^verbatim>\<open>application/json\<close>, its body as text (\<open>None\<close> when reading it fails), and
  what parsing that body as JSON yields (\<open>None\<close> for a SyntaxError).
\<close>

record response =
  res_ok :: bool
  res_status :: nat
  res_is_json :: bool
  res_text :: "string option"
  res_json :: "jsval option"

datatype fetch_result = Rejected jstext | Responded response

text \<open>
  The number that \<^verbatim>\<open>parseInt\<close> returns for a mathematical integer: the nearest
  double, a tie going to the even significand of 53 bits, and an infinity from
  \<open>2 ^ 1024 - 2 ^ 970\<close> on. (For more than 20 significant digits an engine may round the
  digits first; this is the exact rounding.) \<open>bit_len\<close> is the number of bits of a
  natural number, \<open>round_to_double\<close> its rounding to 53 bits, \<open>None\<close> for a result of
  more than 1024 bits.
\<close>

function bit_len :: "int \<Rightarrow> nat" where
  "bit_len n = (if n \<le> 0 then 0 else Suc (bit_len (n div 2)))"
  by pat_completeness auto

termination
  by (relation "measure nat") auto

definition round_to_double :: "int \<Rightarrow> int option" where
  "round_to_double n =
     (if bit_len n \<le> 53 then Some n
      else (let sh = bit_len n - 53;
                q = n div 2 ^ sh;
                r = n mod 2 ^ sh;
                q' = (if 2 ^ sh < 2 * r \<or> (2 * r = 2 ^ sh \<and> odd q) then q + 1 else q)
            in if bit_len (q' * 2 ^ sh) > 1024 then None else Some (q' * 2 ^ sh)))"

definition parsed_number :: "int \<Rightarrow> jsval" where
  "parsed_number a =
     (case round_to_double \<bar>a\<bar> of
        None \<Rightarrow> if a < 0 then JNegInfinity else JInfinity
      | Some v \<Rightarrow> JNum (of_int (if a < 0 then - v else v)))"

text \<open>The body as \<^verbatim>\<open>apiFetch\<close> reads it (lines 56 to 63).\<close>

definition apiFetch_body :: "response \<Rightarrow> js_error + jsval" where
  "apiFetch_body r =
     (if res_is_json r then (case res_json r of None \<Rightarrow> Inl SyntaxError | Some v \<Rightarrow> Inr v)
      else (case res_text r of
              None \<Rightarrow> Inr JNull
            | Some t \<Rightarrow> if t = [] then Inr JNull
                        else (case res_json r of None \<Rightarrow> Inr (JStr t) | Some v \<Rightarrow> Inr v)))"

text \<open>
  The message of the error \<^verbatim>\<open>apiFetch\<close> throws on a status that is not ok
  (lines 65, 66). \<^verbatim>\<open>new Error(errMsg)\<close> converts the message to a string, so a
  \<^verbatim>\<open>detail\<close> or \<^verbatim>\<open>message\<close> that cannot be converted makes it a TypeError.
\<close>

definition apiFetch_errVal :: "jsval \<Rightarrow> jsval" where
  "apiFetch_errVal body =
     (let dm = js_or (get_field body ''detail'') (get_field body ''message'')
      in if truthy (js_and body dm) then dm
         else (case body of JStr t \<Rightarrow> JStr t | _ \<Rightarrow> JUndefined))"

definition apiFetch_errMsg :: "nat \<Rightarrow> jsval \<Rightarrow> jstext" where
  "apiFetch_errMsg code body =
     (let errMsg = apiFetch_errVal body
      in if truthy errMsg then ToStr errMsg else HttpStatus code)"

definition apiFetch :: "fetch_result \<Rightarrow> js_error + jsval" where
  "apiFetch fr =
     (case fr of
        Rejected t \<Rightarrow> Inl (NetworkError t)
      | Responded r \<Rightarrow>
          (case apiFetch_body r of
             Inl e \<Rightarrow> Inl e
           | Inr body \<Rightarrow>
               if \<not> res_ok r
               then (if str_throws (apiFetch_errVal body) then Inl TypeError
                     else Inl (HttpError (res_status r) body (apiFetch_errMsg (res_status r) body)))
               else Inr body))"

section \<open>The program state\<close>

type_synonym stream = nat
type_synonym blob = nat

text \<open>The \<^verbatim>\<open>state\<close> object (lines 16 to 22).\<close>

record state =
  sessionId :: jsval
  name :: jsval
  mobile :: jsval
  age :: jsval
  documentType :: jsval
  documentNumber :: jsval
  lastOcrResponse :: jsval
  activeStream :: "stream option"

datatype view =
    Home | CreateSession | SelectDocument | EnterDocNumber | UploadDocument
  | OcrProgress | SelfieUpload | Status | AdminList

text \<open>
  The local variables of one call of \<^verbatim>\<open>renderUploadDocument\<close> and of one call of
  \<^verbatim>\<open>renderSelfieUpload\<close>, which their event handlers and pending continuations share.
  \<open>sourceArea\<close> is what the source area of the upload view holds: the file input, or the
  video and buttons built by the call of \<^verbatim>\<open>setupCameraCapture\<close> with the given
  number, with or without their click listeners.
\<close>

datatype source_area = FileInput | CameraArea nat bool

record upload_closure =
  chosenFile :: "blob option"
  doc_localStream :: "stream option"
  sourceArea :: source_area

record selfie_closure =
  selfie_localStream :: "stream option"
  capturedBlob :: "blob option"

text \<open>The result element of one OCR progress view.\<close>

datatype panel = Blank | PanelText jstext | PanelConfirm jsval

text \<open>
  A request, with the values its URL and body are built from. The template literal of a
  URL converts the session identifier to a string; a request carries the identifier
  itself, and that conversion is taken to succeed (the identifiers that the
  create-session handler persists all have a string form; the handlers that build a URL
  are not modelled for an identifier that has none).
\<close>

datatype request =
    PostSession string string
  | PostSelectDocument jsval jsval
  | PostEnterDocNumber jsval string
  | PostValidateDocument jsval blob
  | PostSelfie jsval blob
  | GetSession jsval
  | GetAdminSessions "(string \<times> string) list"

datatype timer_action = GoSelectDocument | GoUploadDocument

text \<open>
  What the program is waiting for: the response to a request, the answer of
  \<^verbatim>\<open>getUserMedia\<close>, the callback of \<^verbatim>\<open>canvas.toBlob\<close>, a timer with its delay
  in milliseconds. Each carries what its continuation has captured.
\<close>

datatype op =
    OpCreateSession string string int
  | OpSelectDocument jsval
  | OpEnterDocNumber string
  | OpValidateDocument nat
  | OpSelfie nat
  | OpLoadStatus
  | OpLoadSessions
  | OpDocCamera nat
  | OpSelfieCamera nat
  | OpDocBlob nat
  | OpSelfieBlob nat
  | OpTimer nat timer_action

datatype target =
    CreateSessionMsg | SelectDocumentNode | DocNumberMsg | UploadMsg | OcrResult nat
  | SelfiePreview | StatusInfo

text \<open>
  The program with its surroundings: the \<^verbatim>\<open>state\<close> object, the
  \<^verbatim>\<open>swiftkyc_session\<close> key of localStorage, the view on screen and the number of its
  instance, the closures and result panels by instance, the pending operations, the media
  streams whose tracks have not been stopped, and two logs: the requests sent and the
  messages shown.
\<close>

text \<open>
  \<open>storage\<close> is \<open>None\<close> while the key is absent; \<^verbatim>\<open>setItem\<close> stores the string
  conversion of its argument while \<open>storage_ok\<close> holds and throws a QuotaExceededError
  while it does not (the quota of the origin is used up). Streams, image payloads, view
  instances and pending operations are told apart by numbers, taken from the counter
  \<open>fresh\<close>.
\<close>

record world =
  st :: state
  storage :: "jstext option"
  storage_ok :: bool
  view :: view
  inst :: nat
  uploads :: "nat \<Rightarrow> upload_closure option"
  selfies :: "nat \<Rightarrow> selfie_closure option"
  panels :: "nat \<Rightarrow> panel option"
  pending :: "nat \<Rightarrow> op option"
  fresh :: nat
  open_streams :: "stream list"
  sent :: "request list"
  shown :: "(target \<times> jstext) list"

text \<open>
  \<^verbatim>\<open>showMessage\<close> (lines 41 to 50), as an entry of the log; the timer that clears the
  message after 5.5 seconds is left out. Assignments of a text to an element are logged
  the same way.
\<close>

definition showMessage :: "target \<Rightarrow> jstext \<Rightarrow> world \<Rightarrow> world" where
  "showMessage t m w = w\<lparr>shown := shown w @ [(t, m)]\<rparr>"

definition send :: "request \<Rightarrow> world \<Rightarrow> world" where
  "send r w = w\<lparr>sent := sent w @ [r]\<rparr>"

text \<open>Registering a pending operation under a fresh number.\<close>

definition await :: "op \<Rightarrow> world \<Rightarrow> world" where
  "await p w = w\<lparr>pending := (pending w)(fresh w \<mapsto> p), fresh := Suc (fresh w)\<rparr>"

text \<open>\<^verbatim>\<open>t.stop()\<close> on every track of a stream.\<close>

definition stop_tracks :: "stream \<Rightarrow> world \<Rightarrow> world" where
  "stop_tracks s w = w\<lparr>open_streams := removeAll s (open_streams w)\<rparr>"

definition set_activeStream :: "stream option \<Rightarrow> world \<Rightarrow> world" where
  "set_activeStream a w = w\<lparr>st := (st w)\<lparr>activeStream := a\<rparr>\<rparr>"

text \<open>\<^verbatim>\<open>stopActiveStream\<close> (lines 74 to 79).\<close>

definition stopActiveStream :: "world \<Rightarrow> world" where
  "stopActiveStream w =
     (case activeStream (st w) of
        None \<Rightarrow> w
      | Some s \<Rightarrow> set_activeStream None (stop_tracks s w))"

text \<open>\<^verbatim>\<open>setMain\<close> with the node of a template: the view on screen is a new instance.\<close>

definition setMain :: "view \<Rightarrow> world \<Rightarrow> world" where
  "setMain v w = w\<lparr>view := v, inst := fresh w, fresh := Suc (fresh w)\<rparr>"

section \<open>The customer wizard\<close>

text \<open>
  Each function below is the function or event handler of \<^verbatim>\<open>app.js\<close> of the same
  name, as a transformer of the \<^typ>\<open>world\<close>. An \<^verbatim>\<open>await\<close> splits a handler in
  two: the part before it registers a pending operation, the part after it runs when the
  operation settles. The long dash of three messages is written \<open>-\<close>.
\<close>

definition showHome :: "world \<Rightarrow> world" where
  "showHome w = setMain Home (stopActiveStream w)"

definition renderCreateSession :: "world \<Rightarrow> world" where
  "renderCreateSession w = setMain CreateSession (stopActiveStream w)"

definition renderSelectDocument :: "world \<Rightarrow> world" where
  "renderSelectDocument w = setMain SelectDocument (stopActiveStream w)"

definition renderEnterDocNumber :: "world \<Rightarrow> world" where
  "renderEnterDocNumber w = setMain EnterDocNumber (stopActiveStream w)"

subsection \<open>Create session (lines 145 to 171)\<close>

definition submit_create_session :: "string \<Rightarrow> string \<Rightarrow> string \<Rightarrow> world \<Rightarrow> world" where
  "submit_create_session i_name i_mobile i_age w =
     (let nm = js_trim i_name; mob = js_trim i_mobile in
      if nm = [] \<or> \<not> matches_ten_digits mob
      then showMessage CreateSessionMsg (Lit ''Enter a valid name and 10-digit mobile.'') w
      else (case parseInt10 i_age of
              None \<Rightarrow> showMessage CreateSessionMsg (Lit ''You must be 18 years or older.'') w
            | Some a \<Rightarrow>
                if a < 18
                then showMessage CreateSessionMsg (Lit ''You must be 18 years or older.'') w
                else await (OpCreateSession nm mob a)
                       (send (PostSession nm mob)
                          (showMessage CreateSessionMsg (Lit ''Creating session...'') w))))"

text \<open>
  \<^verbatim>\<open>body.session_id || body.sessionId || body.id\<close> and the check that follows
  (lines 160, 161).
\<close>

definition first_sid :: "jsval \<Rightarrow> jsval" where
  "first_sid body =
     js_or (js_or (get_field body ''session_id'') (get_field body ''sessionId''))
       (get_field body ''id'')"

definition response_sid :: "jsval \<Rightarrow> js_error + jsval" where
  "response_sid body =
     (if nullish body then Inl TypeError
      else (let sid = first_sid body
            in if \<not> truthy sid then Inl (Error (Lit ''No session_id in response''))
               else Inr sid))"

text \<open>
  \<^verbatim>\<open>localStorage.setItem('swiftkyc_session', sid)\<close> (line 164): the conversion of
  \<open>sid\<close> to a string comes first, then the write.
\<close>

definition setItem :: "jsval \<Rightarrow> world \<Rightarrow> js_error + world" where
  "setItem sid w =
     (if str_throws sid then Inl TypeError
      else if \<not> storage_ok w then Inl QuotaExceededError
      else Inr (w\<lparr>storage := Some (ToStr sid)\<rparr>))"

definition create_session_failed :: "js_error \<Rightarrow> world \<Rightarrow> world" where
  "create_session_failed err w =
     showMessage CreateSessionMsg
       (Cat (Lit ''Create session failed: '') (OrElse (err_message err) ''server error'')) w"

text \<open>
  The handler after the response (lines 160 to 170). The four fields of \<^verbatim>\<open>state\<close>
  are assigned before \<^verbatim>\<open>setItem\<close> is called, so they keep their new values when it
  throws and the \<^verbatim>\<open>catch\<close> shows its message.
\<close>

definition created_session :: "string \<Rightarrow> string \<Rightarrow> int \<Rightarrow> fetch_result \<Rightarrow> world \<Rightarrow> world" where
  "created_session nm mob a fr w =
     (case (case apiFetch fr of Inl e \<Rightarrow> Inl e | Inr body \<Rightarrow> response_sid body) of
        Inl err \<Rightarrow> create_session_failed err w
      | Inr sid \<Rightarrow>
          (let w1 = w\<lparr>st := (st w)\<lparr>sessionId := sid, name := JStr nm, mobile := JStr mob,
                                    age := parsed_number a\<rparr>\<rparr>
           in case setItem sid w1 of
                Inl err \<Rightarrow> create_session_failed err w1
              | Inr w2 \<Rightarrow>
                  await (OpTimer 300 GoSelectDocument)
                    (showMessage CreateSessionMsg (Lit ''Session created - continuing...'') w2)))"

subsection \<open>Select document (lines 184 to 200)\<close>

definition click_doc_btn :: "jsval \<Rightarrow> world \<Rightarrow> world" where
  "click_doc_btn docType w =
     (if \<not> truthy (sessionId (st w))
      then showMessage SelectDocumentNode (Lit ''Session missing, start again.'') w
      else await (OpSelectDocument docType)
             (send (PostSelectDocument (sessionId (st w)) docType) w))"

definition selected_document :: "jsval \<Rightarrow> fetch_result \<Rightarrow> world \<Rightarrow> world" where
  "selected_document docType fr w =
     (case (case apiFetch fr of Inl e \<Rightarrow> Inl e | Inr resp \<Rightarrow> get_prop resp ''doc_type'') of
        Inr dt \<Rightarrow> renderEnterDocNumber (w\<lparr>st := (st w)\<lparr>documentType := js_or dt docType\<rparr>\<rparr>)
      | Inl err \<Rightarrow>
          showMessage SelectDocumentNode
            (Cat (Lit ''Select document failed: '') (OrElse (err_message err) ''server error'')) w)"

subsection \<open>Upload document: the source area (lines 273 to 345)\<close>

definition set_sourceArea :: "nat \<Rightarrow> source_area \<Rightarrow> world \<Rightarrow> world" where
  "set_sourceArea cid a w =
     (case uploads w cid of
        None \<Rightarrow> w
      | Some c \<Rightarrow> w\<lparr>uploads := (uploads w)(cid \<mapsto> c\<lparr>sourceArea := a\<rparr>)\<rparr>)"

definition set_chosenFile :: "nat \<Rightarrow> blob option \<Rightarrow> world \<Rightarrow> world" where
  "set_chosenFile cid f w =
     (case uploads w cid of
        None \<Rightarrow> w
      | Some c \<Rightarrow> w\<lparr>uploads := (uploads w)(cid \<mapsto> c\<lparr>chosenFile := f\<rparr>)\<rparr>)"

definition set_doc_localStream :: "nat \<Rightarrow> stream option \<Rightarrow> world \<Rightarrow> world" where
  "set_doc_localStream cid s w =
     (case uploads w cid of
        None \<Rightarrow> w
      | Some c \<Rightarrow> w\<lparr>uploads := (uploads w)(cid \<mapsto> c\<lparr>doc_localStream := s\<rparr>)\<rparr>)"

definition stopLocalCamera :: "nat \<Rightarrow> world \<Rightarrow> world" where
  "stopLocalCamera cid w =
     (case uploads w cid of
        None \<Rightarrow> w
      | Some c \<Rightarrow>
          set_activeStream None
            (case doc_localStream c of
               None \<Rightarrow> w
             | Some s \<Rightarrow> set_doc_localStream cid None (stop_tracks s w)))"

definition setupFileInput :: "nat \<Rightarrow> world \<Rightarrow> world" where
  "setupFileInput cid w = set_sourceArea cid FileInput (stopLocalCamera cid w)"

text \<open>
  \<^verbatim>\<open>setupCameraCapture\<close> up to its \<^verbatim>\<open>await\<close> of \<^verbatim>\<open>getUserMedia\<close>: it builds the
  video and the two buttons and asks for the camera. It stops nothing.
\<close>

definition setupCameraCapture :: "nat \<Rightarrow> world \<Rightarrow> world" where
  "setupCameraCapture cid w =
     await (OpDocCamera cid) (set_sourceArea cid (CameraArea (fresh w) False) w)"

text \<open>
  The answer of \<^verbatim>\<open>getUserMedia\<close>: a new stream, with whether \<^verbatim>\<open>video.play()\<close>
  then succeeds, or a refusal with its message.
\<close>

datatype media_result = Granted bool | Denied jstext

definition open_stream :: "world \<Rightarrow> world" where
  "open_stream w = w\<lparr>open_streams := open_streams w @ [fresh w], fresh := Suc (fresh w)\<rparr>"

definition camera_error :: "target \<Rightarrow> jstext \<Rightarrow> world \<Rightarrow> world" where
  "camera_error t m w = showMessage t (Cat (Lit ''Camera error: '') (OrElse m ''permission denied'')) w"

text \<open>
  The rest of \<^verbatim>\<open>setupCameraCapture\<close> (lines 304 to 329), for the call numbered
  \<open>k\<close>: the listeners go to the buttons that call built, which are on screen only while
  the source area still holds them.
\<close>

definition doc_camera_answer :: "nat \<Rightarrow> nat \<Rightarrow> media_result \<Rightarrow> world \<Rightarrow> world" where
  "doc_camera_answer k cid res w =
     (case res of
        Denied m \<Rightarrow> camera_error UploadMsg m w
      | Granted played \<Rightarrow>
          (let s = fresh w;
               w1 = set_activeStream (Some s) (set_doc_localStream cid (Some s) (open_stream w))
           in if \<not> played then camera_error UploadMsg (EngineText ''play'') w1
              else (case uploads w1 cid of
                      None \<Rightarrow> w1
                    | Some c \<Rightarrow>
                        if sourceArea c = CameraArea k False
                        then set_sourceArea cid (CameraArea k True) w1 else w1)))"

definition renderUploadDocument :: "world \<Rightarrow> world" where
  "renderUploadDocument w =
     (let w1 = setMain UploadDocument (stopActiveStream w);
          cid = inst w1
      in setupFileInput cid
           (w1\<lparr>uploads := (uploads w1)(cid \<mapsto>
                  \<lparr>chosenFile = None, doc_localStream = None, sourceArea = FileInput\<rparr>)\<rparr>))"

definition change_source :: "string \<Rightarrow> nat \<Rightarrow> world \<Rightarrow> world" where
  "change_source v cid w =
     (let w1 = set_chosenFile cid None w
      in if v = ''file'' then setupFileInput cid w1 else setupCameraCapture cid w1)"

definition click_doc_close :: "nat \<Rightarrow> world \<Rightarrow> world" where
  "click_doc_close cid w = setupFileInput cid (stopLocalCamera cid w)"

definition click_cancel_upload_doc :: "nat \<Rightarrow> world \<Rightarrow> world" where
  "click_cancel_upload_doc cid w = showHome (stopLocalCamera cid w)"

subsection \<open>Enter document number (lines 214 to 233)\<close>

definition submit_doc_number :: "string \<Rightarrow> world \<Rightarrow> world" where
  "submit_doc_number i_docno w =
     (let docno = js_trim i_docno in
      if docno = [] then showMessage DocNumberMsg (Lit ''Enter the document number.'') w
      else if \<not> truthy (sessionId (st w)) then showMessage DocNumberMsg (Lit ''Session missing.'') w
      else await (OpEnterDocNumber docno)
             (send (PostEnterDocNumber (sessionId (st w)) docno) w))"

definition entered_doc_number :: "string \<Rightarrow> fetch_result \<Rightarrow> world \<Rightarrow> world" where
  "entered_doc_number docno fr w =
     (case (case apiFetch fr of Inl e \<Rightarrow> Inl e | Inr resp \<Rightarrow> get_prop resp ''doc_number'') of
        Inr dn \<Rightarrow> renderUploadDocument (w\<lparr>st := (st w)\<lparr>documentNumber := js_or dn (JStr docno)\<rparr>\<rparr>)
      | Inl err \<Rightarrow>
          showMessage DocNumberMsg
            (Cat (Lit ''Saving document number failed: '') (OrElse (err_message err) ''server error'')) w)"

subsection \<open>Upload document: submission and the OCR progress view (lines 347 to 424)\<close>

text \<open>
  The click on the upload button, up to the \<^verbatim>\<open>await\<close> of \<^verbatim>\<open>fetch\<close>. It puts
  the OCR progress template on screen with \<^verbatim>\<open>setMain\<close> alone; the progress bar is
  decoration and is left out.
\<close>

definition click_upload_doc :: "nat \<Rightarrow> world \<Rightarrow> world" where
  "click_upload_doc cid w =
     (case uploads w cid of
        None \<Rightarrow> w
      | Some c \<Rightarrow>
          (case chosenFile c of
             None \<Rightarrow> showMessage UploadMsg (Lit ''Please choose or capture a file first.'') w
           | Some f \<Rightarrow>
               if \<not> truthy (sessionId (st w))
               then showMessage UploadMsg (Lit ''Session missing - start again.'') w
               else (let w1 = setMain OcrProgress w;
                         p = inst w1
                     in await (OpValidateDocument p)
                          (send (PostValidateDocument (sessionId (st w)) f)
                             (w1\<lparr>panels := (panels w1)(p \<mapsto> Blank)\<rparr>)))))"

text \<open>The body as the upload handler reads it (lines 378 to 384).\<close>

definition validate_body :: "response \<Rightarrow> js_error + jsval" where
  "validate_body r =
     (if res_is_json r then (case res_json r of None \<Rightarrow> Inl SyntaxError | Some v \<Rightarrow> Inr v)
      else (case res_text r of
              None \<Rightarrow> Inr (JObj [])
            | Some t \<Rightarrow>
                if t = [] then Inr (JObj [])
                else (case res_json r of
                        Some v \<Rightarrow> Inr v
                      | None \<Rightarrow> Inr (JObj [(''next_step'', JStr ''SCAN_DOC''), (''reason'', JStr t)]))))"

definition set_panel :: "nat \<Rightarrow> panel \<Rightarrow> world \<Rightarrow> world" where
  "set_panel p x w = w\<lparr>panels := (panels w)(p \<mapsto> x)\<rparr>"

text \<open>
  The \<^verbatim>\<open>catch\<close> of the upload handler (lines 417 to 423); its message becomes the
  content of the result element.
\<close>

definition upload_failed :: "nat \<Rightarrow> js_error \<Rightarrow> world \<Rightarrow> world" where
  "upload_failed p err w =
     (let m = Cat (Lit ''Upload/OCR failed: '') (OrElse (err_message err) ''server error'')
      in await (OpTimer 1200 GoUploadDocument)
           (showMessage (OcrResult p) m (set_panel p (PanelText m) w)))"

text \<open>\<^verbatim>\<open>data.next_step || data.nextStep\<close> (line 387), on a body that is not null.\<close>

definition next_step_of :: "jsval \<Rightarrow> jsval" where
  "next_step_of d = js_or (get_field d ''next_step'') (get_field d ''nextStep'')"

text \<open>
  The handler after the response (lines 375 to 416), for the progress view \<open>p\<close>. Each of
  its three branches converts a value of the body to a string before it touches the
  result element: \<^verbatim>\<open>'OCR failed: ' + reason\<close> (line 392), the template literal
  with \<^verbatim>\<open>data.storage_url || 'uploaded'\<close> (line 402), the assignment of
  \<^verbatim>\<open>msg\<close> to \<^verbatim>\<open>textContent\<close> (line 412). A value that cannot be converted
  throws there, after \<^verbatim>\<open>state.lastOcrResponse\<close> was assigned, and the
  \<^verbatim>\<open>catch\<close> runs.
\<close>

definition validated_document :: "nat \<Rightarrow> fetch_result \<Rightarrow> world \<Rightarrow> world" where
  "validated_document p fr w =
     (case fr of
        Rejected m \<Rightarrow> upload_failed p (NetworkError m) w
      | Responded r \<Rightarrow>
          (case validate_body r of
             Inl e \<Rightarrow> upload_failed p e w
           | Inr d \<Rightarrow>
               if nullish d then upload_failed p TypeError w
               else (let nextStep = next_step_of d;
                         w1 = w\<lparr>st := (st w)\<lparr>lastOcrResponse := d\<rparr>\<rparr>
                     in if \<not> res_ok r
                        then (let reason = js_or (js_and d (js_or (get_field d ''reason'') (get_field d ''detail'')))
                                             (JStr ''OCR validation failed'');
                                  m = Cat (Lit ''OCR failed: '') (ToStr reason)
                              in if str_throws reason then upload_failed p TypeError w1
                                 else await (OpTimer 1200 GoUploadDocument)
                                        (showMessage (OcrResult p) m (set_panel p (PanelText m) w1)))
                        else if nextStep = JStr ''SELFIE''
                        then (let storage_url = js_or (get_field d ''storage_url'') (JStr ''uploaded'')
                              in if str_throws storage_url then upload_failed p TypeError w1
                                 else set_panel p (PanelConfirm storage_url) w1)
                        else (let msg = js_or (get_field d ''reason'')
                                          (JStr ''OCR did not match. Please re-upload a clearer image.'')
                              in if str_throws msg then upload_failed p TypeError w1
                                 else await (OpTimer 1200 GoUploadDocument)
                                        (showMessage (OcrResult p) (ToStr msg)
                                           (set_panel p (PanelText (ToStr msg)) w1))))))"

subsection \<open>Selfie (lines 430 to 510)\<close>

definition set_selfie_localStream :: "nat \<Rightarrow> stream option \<Rightarrow> world \<Rightarrow> world" where
  "set_selfie_localStream cid s w =
     (case selfies w cid of
        None \<Rightarrow> w
      | Some c \<Rightarrow> w\<lparr>selfies := (selfies w)(cid \<mapsto> c\<lparr>selfie_localStream := s\<rparr>)\<rparr>)"

definition set_capturedBlob :: "nat \<Rightarrow> blob option \<Rightarrow> world \<Rightarrow> world" where
  "set_capturedBlob cid b w =
     (case selfies w cid of
        None \<Rightarrow> w
      | Some c \<Rightarrow> w\<lparr>selfies := (selfies w)(cid \<mapsto> c\<lparr>capturedBlob := b\<rparr>)\<rparr>)"

definition startCamera :: "nat \<Rightarrow> world \<Rightarrow> world" where
  "startCamera cid w = await (OpSelfieCamera cid) w"

definition selfie_camera_answer :: "nat \<Rightarrow> media_result \<Rightarrow> world \<Rightarrow> world" where
  "selfie_camera_answer cid res w =
     (case res of
        Denied m \<Rightarrow> camera_error SelfiePreview m w
      | Granted played \<Rightarrow>
          (let s = fresh w;
               w1 = set_activeStream (Some s) (set_selfie_localStream cid (Some s) (open_stream w))
           in if \<not> played then camera_error SelfiePreview (EngineText ''play'') w1 else w1))"

definition stopCamera :: "nat \<Rightarrow> world \<Rightarrow> world" where
  "stopCamera cid w =
     (case selfies w cid of
        None \<Rightarrow> w
      | Some c \<Rightarrow>
          (case selfie_localStream c of
             None \<Rightarrow> w
           | Some s \<Rightarrow> set_activeStream None (set_selfie_localStream cid None (stop_tracks s w))))"

definition renderSelfieUpload :: "world \<Rightarrow> world" where
  "renderSelfieUpload w =
     (let w1 = setMain SelfieUpload (stopActiveStream w);
          cid = inst w1
      in startCamera cid
           (w1\<lparr>selfies := (selfies w1)(cid \<mapsto> \<lparr>selfie_localStream = None, capturedBlob = None\<rparr>)\<rparr>))"

text \<open>The capture button, given the \<^verbatim>\<open>videoWidth\<close> the video element reports.\<close>

definition click_capture_selfie :: "nat \<Rightarrow> nat \<Rightarrow> world \<Rightarrow> world" where
  "click_capture_selfie videoWidth cid w =
     (if videoWidth = 0 then showMessage SelfiePreview (Lit ''Camera not ready - try again.'') w
      else await (OpSelfieBlob cid) w)"

definition click_upload_selfie :: "nat \<Rightarrow> world \<Rightarrow> world" where
  "click_upload_selfie cid w =
     (case selfies w cid of
        None \<Rightarrow> w
      | Some c \<Rightarrow>
          (case capturedBlob c of
             None \<Rightarrow> showMessage SelfiePreview (Lit ''Capture a selfie first.'') w
           | Some b \<Rightarrow>
               if \<not> truthy (sessionId (st w))
               then showMessage SelfiePreview (Lit ''Session missing.'') w
               else await (OpSelfie cid)
                      (send (PostSelfie (sessionId (st w)) b)
                         (showMessage SelfiePreview (Lit ''Uploading selfie...'') w))))"

subsection \<open>Status (lines 513 to 551)\<close>

definition loadStatus :: "world \<Rightarrow> world" where
  "loadStatus w =
     (if \<not> truthy (sessionId (st w))
      then showMessage StatusInfo
             (Cat (Lit ''Failed to load status: '') (OrElse (Lit ''No session id stored.'') ''server error'')) w
      else await OpLoadStatus (send (GetSession (sessionId (st w))) w))"

definition renderStatusPage :: "world \<Rightarrow> world" where
  "renderStatusPage w = loadStatus (setMain Status (stopActiveStream w))"

definition loaded_status :: "fetch_result \<Rightarrow> world \<Rightarrow> world" where
  "loaded_status fr w =
     (case (case apiFetch fr of Inl e \<Rightarrow> Inl e | Inr d \<Rightarrow> get_prop d ''session_id'') of
        Inr v \<Rightarrow> w
      | Inl err \<Rightarrow>
          showMessage StatusInfo
            (Cat (Lit ''Failed to load status: '') (OrElse (err_message err) ''server error'')) w)"

text \<open>The selfie handler after the response (lines 489 to 500).\<close>

definition uploaded_selfie :: "nat \<Rightarrow> fetch_result \<Rightarrow> world \<Rightarrow> world" where
  "uploaded_selfie cid fr w =
     (case fr of
        Rejected m \<Rightarrow>
          showMessage SelfiePreview
            (Cat (Lit ''Selfie upload failed: '') (OrElse m ''server error'')) w
      | Responded r \<Rightarrow>
          if \<not> res_ok r
          then showMessage SelfiePreview
                 (Cat (Lit ''Selfie upload failed: '')
                    (OrElse (case res_text r of
                               None \<Rightarrow> Lit ''Upload failed''
                             | Some t \<Rightarrow> if t = [] then Lit ''Upload failed'' else Lit t)
                       ''server error'')) w
          else renderStatusPage (stopCamera cid w))"

section \<open>Dates\<close>

text \<open>
  \<^verbatim>\<open>Date.UTC\<close> and \<^verbatim>\<open>toISOString\<close> after the abstract operations of the language
  standard, on integer arguments. A time value is a number of milliseconds since
  1970-01-01T00:00:00Z; \<open>None\<close> is \<^verbatim>\<open>NaN\<close>, the invalid date.
\<close>

definition msPerDay :: int where
  "msPerDay = 86400000"

definition DayFromYear :: "int \<Rightarrow> int" where
  "DayFromYear y = 365 * (y - 1970) + (y - 1969) div 4 - (y - 1901) div 100 + (y - 1601) div 400"

definition InLeapYear :: "int \<Rightarrow> bool" where
  "InLeapYear y = (y mod 4 = 0 \<and> (y mod 100 \<noteq> 0 \<or> y mod 400 = 0))"

text \<open>The number of days before month \<open>m\<close> (0 for January) within a year.\<close>

definition month_start :: "bool \<Rightarrow> int \<Rightarrow> int" where
  "month_start leap m =
     [0, 31, 59, 90, 120, 151, 181, 212, 243, 273, 304, 334, 365] ! nat m
     + (if leap \<and> 2 \<le> m then 1 else 0)"

text \<open>
  \<^verbatim>\<open>MakeDay\<close>: months beyond 0 to 11 carry into the year, and the day of the month
  counts on from the first of the month, whatever its size.
\<close>

definition MakeDay :: "int \<Rightarrow> int \<Rightarrow> int \<Rightarrow> int" where
  "MakeDay yr m dt =
     (let ym = yr + m div 12; mn = m mod 12
      in DayFromYear ym + month_start (InLeapYear ym) mn + dt - 1)"

definition MakeTime :: "int \<Rightarrow> int \<Rightarrow> int \<Rightarrow> int \<Rightarrow> int" where
  "MakeTime h mi s ms = h * 3600000 + mi * 60000 + s * 1000 + ms"

definition TimeClip :: "int \<Rightarrow> int option" where
  "TimeClip t = (if \<bar>t\<bar> > 8640000000000000 then None else Some t)"

text \<open>\<^verbatim>\<open>Date.UTC(y, m, d, h, mi, s)\<close>: a year from 0 to 99 means 1900 plus that year.\<close>

definition Date_UTC :: "int \<Rightarrow> int \<Rightarrow> int \<Rightarrow> int \<Rightarrow> int \<Rightarrow> int \<Rightarrow> int option" where
  "Date_UTC y m d h mi s =
     (let yr = (if 0 \<le> y \<and> y \<le> 99 then 1900 + y else y)
      in TimeClip (MakeDay yr m d * msPerDay + MakeTime h mi s 0))"

text \<open>
  \<^verbatim>\<open>YearFromTime\<close> on a day number: the year \<open>y\<close> with
  \<open>DayFromYear y \<le> D < DayFromYear (y + 1)\<close>, found from an estimate that is off by one
  year at most.
\<close>

definition YearFromDay :: "int \<Rightarrow> int" where
  "YearFromDay D =
     (let e = 1970 + (400 * D) div 146097
      in if D < DayFromYear e then e - 1
         else if DayFromYear (e + 1) \<le> D then e + 1
         else e)"

text \<open>\<^verbatim>\<open>MonthFromTime\<close> on the day within the year: 0 for January.\<close>

definition MonthFromDay :: "bool \<Rightarrow> int \<Rightarrow> int" where
  "MonthFromDay leap n =
     (if n < month_start leap 1 then 0 else if n < month_start leap 2 then 1
      else if n < month_start leap 3 then 2 else if n < month_start leap 4 then 3
      else if n < month_start leap 5 then 4 else if n < month_start leap 6 then 5
      else if n < month_start leap 7 then 6 else if n < month_start leap 8 then 7
      else if n < month_start leap 9 then 8 else if n < month_start leap 10 then 9
      else if n < month_start leap 11 then 10 else 11)"

definition digit_char :: "nat \<Rightarrow> char" where
  "digit_char n = ''0123456789'' ! (n mod 10)"

definition pad2 :: "nat \<Rightarrow> string" where
  "pad2 n = [digit_char (n div 10), digit_char n]"

definition pad3 :: "nat \<Rightarrow> string" where
  "pad3 n = digit_char (n div 100) # pad2 n"

definition pad4 :: "nat \<Rightarrow> string" where
  "pad4 n = digit_char (n div 1000) # pad3 n"

definition pad6 :: "nat \<Rightarrow> string" where
  "pad6 n = digit_char (n div 100000) # digit_char (n div 10000) # pad4 n"

text \<open>The year of an ISO string: four digits, or a sign and six digits outside 0 to 9999.\<close>

definition iso_year :: "int \<Rightarrow> string" where
  "iso_year y =
     (if 0 \<le> y \<and> y \<le> 9999 then pad4 (nat y)
      else (if y < 0 then ''-'' else ''+'') @ pad6 (nat \<bar>y\<bar>))"

definition toISOString :: "int option \<Rightarrow> js_error + string" where
  "toISOString tv =
     (case tv of
        None \<Rightarrow> Inl RangeError
      | Some t \<Rightarrow>
          (let D = t div msPerDay; r = t mod msPerDay;
               y = YearFromDay D; n = D - DayFromYear y; leap = InLeapYear y;
               m = MonthFromDay leap n; d = n - month_start leap m + 1
           in Inr (iso_year y @ ''-'' @ pad2 (nat (m + 1)) @ ''-'' @ pad2 (nat d) @ ''T''
                   @ pad2 (nat (r div 3600000)) @ '':'' @ pad2 (nat (r div 60000 mod 60)) @ '':''
                   @ pad2 (nat (r div 1000 mod 60)) @ ''.'' @ pad3 (nat (r mod 1000)) @ ''Z'')))"

section \<open>The moderation console\<close>

text \<open>\<^verbatim>\<open>s.split(c)\<close> with a separator of one character.\<close>

fun js_split :: "char \<Rightarrow> string \<Rightarrow> string list" where
  "js_split c [] = [[]]"
| "js_split c (x # xs) =
     (if x = c then [] # js_split c xs
      else (case js_split c xs of [] \<Rightarrow> [[x]] | p # ps \<Rightarrow> (x # p) # ps))"

text \<open>
  \<^verbatim>\<open>Number(s)\<close> on the strings that the parts of a date value are: the empty string
  is 0, a string of decimal digits is its value. \<open>None\<close> marks a string outside this
  fragment (a sign, a fraction, an exponent, a radix prefix, white space, or no number at
  all), which this model does not follow.
\<close>

definition js_Number :: "string \<Rightarrow> int option" where
  "js_Number s = (if list_all is_digit s then Some (int (digits_value s)) else None)"

text \<open>The filter object; an absent key is \<open>None\<close>.\<close>

record filters =
  status :: "string option"
  doc_type :: "string option"
  created_from :: "string option"
  created_to :: "string option"

definition nonempty :: "string \<Rightarrow> string option" where
  "nonempty s = (if s = [] then None else Some s)"

text \<open>
  \<^verbatim>\<open>getCurrentFilters\<close> (lines 810 to 830) on the values of the three filter
  controls. The outer \<open>None\<close> is a date value outside the fragment of \<open>js_Number\<close>;
  \<open>Inl\<close> is the exception of \<^verbatim>\<open>toISOString\<close>.
\<close>

definition getCurrentFilters :: "string \<Rightarrow> string \<Rightarrow> string \<Rightarrow> (js_error + filters) option" where
  "getCurrentFilters fStatus fDoc fDate =
     (let f = \<lparr>status = nonempty fStatus, doc_type = nonempty fDoc,
                created_from = None, created_to = None\<rparr>
      in if fDate = [] then Some (Inr f)
         else (case js_split CHR ''-'' fDate of
                 [p0, p1, p2] \<Rightarrow>
                   (case (js_Number p0, js_Number p1, js_Number p2) of
                      (Some y, Some m1, Some d) \<Rightarrow>
                        (case toISOString (Date_UTC y (m1 - 1) d 0 0 0) of
                           Inl e \<Rightarrow> Some (Inl e)
                         | Inr createdFrom \<Rightarrow>
                             (case toISOString (Date_UTC y (m1 - 1) d 23 59 59) of
                                Inl e \<Rightarrow> Some (Inl e)
                              | Inr createdTo \<Rightarrow>
                                  Some (Inr (f\<lparr>created_from := Some createdFrom,
                                               created_to := Some createdTo\<rparr>))))
                    | _ \<Rightarrow> None)
               | _ \<Rightarrow> Some (Inr f)))"

text \<open>The query parameters that \<^verbatim>\<open>loadSessions\<close> appends (lines 580 to 584).\<close>

definition query_params :: "filters \<Rightarrow> (string \<times> string) list" where
  "query_params f =
     (case status f of None \<Rightarrow> [] | Some v \<Rightarrow> if v = [] then [] else [(''status'', v)])
     @ (case doc_type f of None \<Rightarrow> [] | Some v \<Rightarrow> if v = [] then [] else [(''doc_type'', v)])
     @ (case created_from f of None \<Rightarrow> [] | Some v \<Rightarrow> if v = [] then [] else [(''created_from'', v)])
     @ (case created_to f of None \<Rightarrow> [] | Some v \<Rightarrow> if v = [] then [] else [(''created_to'', v)])"

definition no_filters :: filters where
  "no_filters = \<lparr>status = None, doc_type = None, created_from = None, created_to = None\<rparr>"

definition loadSessions :: "filters \<Rightarrow> world \<Rightarrow> world" where
  "loadSessions f w = await OpLoadSessions (send (GetAdminSessions (query_params f)) w)"

definition renderAdminList :: "world \<Rightarrow> world" where
  "renderAdminList w = loadSessions no_filters (setMain AdminList (stopActiveStream w))"

text \<open>
  The apply button: \<^verbatim>\<open>loadSessions(getCurrentFilters())\<close>. The exception of an invalid
  date leaves the handler before any request.
\<close>

definition click_filter_apply :: "string \<Rightarrow> string \<Rightarrow> string \<Rightarrow> world \<Rightarrow> world" where
  "click_filter_apply fStatus fDoc fDate w =
     (case getCurrentFilters fStatus fDoc fDate of
        Some (Inr f) \<Rightarrow> loadSessions f w
      | _ \<Rightarrow> w)"

subsection \<open>The detail view (lines 621 to 807)\<close>

datatype action = ApprovedBadge | ApproveButton | RejectButton

text \<open>
  Building the list of documents (lines 650 to 664) reads properties of every element
  of a non-empty \<^verbatim>\<open>documents\<close> array and converts three of them to strings:
  \<^verbatim>\<open>doc.doc_type || "-"\<close>, \<^verbatim>\<open>doc.doc_number || "-"\<close> and
  \<^verbatim>\<open>doc.quality_score ?? "-"\<close>.
\<close>

definition js_coalesce :: "jsval \<Rightarrow> jsval \<Rightarrow> jsval" where
  "js_coalesce a b = (if nullish a then b else a)"

definition document_error :: "jsval \<Rightarrow> bool" where
  "document_error doc =
     (nullish doc \<or>
      str_throws (js_or (get_field doc ''doc_type'') (JStr ''-'')) \<or>
      str_throws (js_or (get_field doc ''doc_number'') (JStr ''-'')) \<or>
      str_throws (js_coalesce (get_field doc ''quality_score'') (JStr ''-'')))"

definition documents_error :: "jsval \<Rightarrow> bool" where
  "documents_error d =
     (case get_field d ''documents'' of JArr ds \<Rightarrow> list_ex document_error ds | _ \<Rightarrow> False)"

text \<open>
  The layout of the record (lines 667 to 697) converts ten of its fields to strings in
  a template literal.
\<close>

definition detail_fields :: "string list" where
  "detail_fields =
     [''session_id'', ''status'', ''current_step'', ''customer_id'', ''retries_select'',
      ''retries_scan'', ''retries_upload'', ''retries_selfie'', ''created_at'', ''updated_at'']"

definition layout_error :: "jsval \<Rightarrow> bool" where
  "layout_error d = list_ex (\<lambda>k. str_throws (get_field d k)) detail_fields"

text \<open>The action bar (lines 722 to 796), in the order the elements are appended.\<close>

definition action_bar :: "jsval \<Rightarrow> action list" where
  "action_bar d =
     (let s = get_field d ''status''
      in if s = JStr ''APPROVED'' then [ApprovedBadge, RejectButton]
         else if s = JStr ''REJECTED'' then [ApproveButton]
         else if s = JStr ''IN_PROGRESS'' \<or> s = JStr ''KYC_CHECK'' then [ApproveButton, RejectButton]
         else [ApproveButton, RejectButton])"

text \<open>
  \<^verbatim>\<open>renderAdminDetail\<close> after its request: the actions shown under the record, or the
  error that makes it show \<^verbatim>\<open>Failed to load detail.\<close> instead.
\<close>

definition renderAdminDetail :: "fetch_result \<Rightarrow> js_error + action list" where
  "renderAdminDetail fr =
     (case apiFetch fr of
        Inl e \<Rightarrow> Inl e
      | Inr d \<Rightarrow>
          if nullish d then Inl TypeError
          else if documents_error d then Inl TypeError
          else if layout_error d then Inl TypeError
          else Inr (action_bar d))"

section \<open>Events\<close>

text \<open>
  The program runs one handler at a time. An event is a user action on a control, with
  the values the handler reads from the page; a signal of the tab; a change of whether
  localStorage takes a write; or the settling of a pending operation, with its result.
  A control exists only while its view instance is on screen; an event on a control that
  is not there changes nothing.
\<close>

datatype completion =
    FetchDone fetch_result
  | MediaDone media_result
  | BlobDone "blob option"
  | TimerDone

datatype event =
    NavHome | NavAdmin | StartKyc | OpenAdmin
  | SubmitCreateSession string string string | CancelToHome
  | DocBtn jsval
  | SubmitDocNumber string | BackToSelect
  | SourceChange string | FileChosen "blob option" | DocCapture | DocClose
  | CancelUploadDoc | UploadDocClick
  | ProceedToSelfie | RetryUpload
  | CaptureSelfie nat | UploadSelfie | CancelSelfie
  | RefreshStatus | ToHome
  | FilterApply string string string | FilterReset
  | BeforeUnload | PageHide
  | StorageQuota bool
  | Settle nat completion

text \<open>The continuation of the pending operation numbered \<open>k\<close>.\<close>

fun continue :: "nat \<Rightarrow> op \<Rightarrow> completion \<Rightarrow> world \<Rightarrow> world option" where
  "continue k (OpCreateSession nm mob a) (FetchDone fr) w = Some (created_session nm mob a fr w)"
| "continue k (OpSelectDocument docType) (FetchDone fr) w = Some (selected_document docType fr w)"
| "continue k (OpEnterDocNumber docno) (FetchDone fr) w = Some (entered_doc_number docno fr w)"
| "continue k (OpValidateDocument p) (FetchDone fr) w = Some (validated_document p fr w)"
| "continue k (OpSelfie cid) (FetchDone fr) w = Some (uploaded_selfie cid fr w)"
| "continue k OpLoadStatus (FetchDone fr) w = Some (loaded_status fr w)"
| "continue k OpLoadSessions (FetchDone fr) w = Some w"
| "continue k (OpDocCamera cid) (MediaDone res) w = Some (doc_camera_answer k cid res w)"
| "continue k (OpSelfieCamera cid) (MediaDone res) w = Some (selfie_camera_answer cid res w)"
| "continue k (OpDocBlob cid) (BlobDone b) w = Some (set_chosenFile cid b w)"
| "continue k (OpSelfieBlob cid) (BlobDone b) w = Some (set_capturedBlob cid b w)"
| "continue k (OpTimer d GoSelectDocument) TimerDone w = Some (renderSelectDocument w)"
| "continue k (OpTimer d GoUploadDocument) TimerDone w = Some (renderUploadDocument w)"
| "continue k p c w = None"

definition settle :: "nat \<Rightarrow> completion \<Rightarrow> world \<Rightarrow> world" where
  "settle k c w =
     (case pending w k of
        None \<Rightarrow> w
      | Some p \<Rightarrow>
          (case continue k p c (w\<lparr>pending := (pending w)(k := None)\<rparr>) of
             None \<Rightarrow> w
           | Some w' \<Rightarrow> w'))"

text \<open>Whether the Capture and Close buttons of the upload view have their listeners.\<close>

definition camera_buttons :: "world \<Rightarrow> bool" where
  "camera_buttons w =
     (case uploads w (inst w) of
        None \<Rightarrow> False
      | Some c \<Rightarrow> (case sourceArea c of FileInput \<Rightarrow> False | CameraArea k b \<Rightarrow> b))"

definition file_input :: "world \<Rightarrow> bool" where
  "file_input w =
     (case uploads w (inst w) of None \<Rightarrow> False | Some c \<Rightarrow> sourceArea c = FileInput)"

text \<open>Whether the progress view on screen offers Proceed to Selfie and Retry Upload.\<close>

definition confirm_buttons :: "world \<Rightarrow> bool" where
  "confirm_buttons w =
     (view w = OcrProgress \<and>
      (case panels w (inst w) of Some (PanelConfirm u) \<Rightarrow> True | _ \<Rightarrow> False))"

text \<open>
  The two listeners that \<^verbatim>\<open>boot\<close> puts on each of the two header buttons both run
  on a click (lines 84, 85, 108, 109). The start and admin buttons of the landing area
  run their render function once here; how many listeners they carry depends on the page
  markup. A date value outside the fragment of \<open>js_Number\<close> is not an event of this
  model: the apply button then leaves the world as it is.
\<close>

fun step :: "world \<Rightarrow> event \<Rightarrow> world" where
  "step w NavHome = showHome (showHome w)"
| "step w NavAdmin = renderAdminList (renderAdminList w)"
| "step w StartKyc = renderCreateSession w"
| "step w OpenAdmin = renderAdminList w"
| "step w (SubmitCreateSession i_name i_mobile i_age) =
     (if view w = CreateSession then submit_create_session i_name i_mobile i_age w else w)"
| "step w CancelToHome = (if view w = CreateSession then showHome w else w)"
| "step w (DocBtn docType) = (if view w = SelectDocument then click_doc_btn docType w else w)"
| "step w (SubmitDocNumber i_docno) =
     (if view w = EnterDocNumber then submit_doc_number i_docno w else w)"
| "step w BackToSelect = (if view w = EnterDocNumber then renderSelectDocument w else w)"
| "step w (SourceChange v) = (if view w = UploadDocument then change_source v (inst w) w else w)"
| "step w (FileChosen f) =
     (if view w = UploadDocument \<and> file_input w
      then (case f of None \<Rightarrow> w | Some b \<Rightarrow> set_chosenFile (inst w) (Some b) w) else w)"
| "step w DocCapture =
     (if view w = UploadDocument \<and> camera_buttons w then await (OpDocBlob (inst w)) w else w)"
| "step w DocClose =
     (if view w = UploadDocument \<and> camera_buttons w then click_doc_close (inst w) w else w)"
| "step w CancelUploadDoc =
     (if view w = UploadDocument then click_cancel_upload_doc (inst w) w else w)"
| "step w UploadDocClick = (if view w = UploadDocument then click_upload_doc (inst w) w else w)"
| "step w ProceedToSelfie = (if confirm_buttons w then renderSelfieUpload w else w)"
| "step w RetryUpload = (if confirm_buttons w then renderUploadDocument w else w)"
| "step w (CaptureSelfie videoWidth) =
     (if view w = SelfieUpload then click_capture_selfie videoWidth (inst w) w else w)"
| "step w UploadSelfie = (if view w = SelfieUpload then click_upload_selfie (inst w) w else w)"
| "step w CancelSelfie =
     (if view w = SelfieUpload then renderUploadDocument (stopCamera (inst w) w) else w)"
| "step w RefreshStatus = (if view w = Status then loadStatus w else w)"
| "step w ToHome = (if view w = Status then showHome w else w)"
| "step w (FilterApply fStatus fDoc fDate) =
     (if view w = AdminList then click_filter_apply fStatus fDoc fDate w else w)"
| "step w FilterReset = (if view w = AdminList then loadSessions no_filters w else w)"
| "step w BeforeUnload = stopActiveStream w"
| "step w PageHide = stopActiveStream w"
| "step w (StorageQuota b) = w\<lparr>storage_ok := b\<rparr>"
| "step w (Settle k c) = settle k c w"

definition run :: "world \<Rightarrow> event list \<Rightarrow> world" where
  "run w evs = foldl step w evs"

text \<open>
  The program after \<^verbatim>\<open>boot\<close>, given what localStorage holds under
  \<^verbatim>\<open>swiftkyc_session\<close>: the initial \<^verbatim>\<open>state\<close> (lines 16 to 22) and the home
  view, with a localStorage that takes writes.
\<close>

definition boot :: "string option \<Rightarrow> world" where
  "boot stored =
     showHome
       \<lparr>st = \<lparr>sessionId = (case stored of None \<Rightarrow> JNull | Some s \<Rightarrow> js_or (JStr s) JNull),
               name = JNull, mobile = JNull, age = JNull,
               documentType = JNull, documentNumber = JNull,
               lastOcrResponse = JNull, activeStream = None\<rparr>,
        storage = map_option Lit stored, storage_ok = True,
        view = Home, inst = 0,
        uploads = Map.empty, selfies = Map.empty, panels = Map.empty, pending = Map.empty,
        fresh = 0, open_streams = [], sent = [], shown = []\<rparr>"

section \<open>Concrete inputs\<close>

text \<open>A response with status 200 and a JSON body.\<close>

definition ok_json :: "jsval \<Rightarrow> fetch_result" where
  "ok_json v =
     Responded \<lparr>res_ok = True, res_status = 200, res_is_json = True,
                res_text = None, res_json = Some v\<rparr>"

text \<open>A response with an error status and a JSON body.\<close>

definition error_json :: "nat \<Rightarrow> jsval \<Rightarrow> response" where
  "error_json code v =
     \<lparr>res_ok = False, res_status = code, res_is_json = True,
      res_text = None, res_json = Some v\<rparr>"

text \<open>The program after the start button of the home view.\<close>

definition at_create_session :: world where
  "at_create_session = run (boot None) [StartKyc]"

text \<open>The same after a valid submission of the form: request 2 is pending.\<close>

definition submitted :: world where
  "submitted = step at_create_session (SubmitCreateSession ''A'' ''9876543210'' ''25'')"

text \<open>Then the session \<^verbatim>\<open>S1\<close> is created.\<close>

definition session_created :: world where
  "session_created =
     step submitted (Settle 2 (FetchDone (ok_json (JObj [(''session_id'', JStr ''S1'')]))))"

text \<open>
  The rest of the walk through the wizard: the timer shows the document choice, PAN is
  chosen, the number is entered, a file is chosen and submitted, the validator answers
  \<^verbatim>\<open>SELFIE\<close>, the user proceeds, the camera is granted, a frame is captured and
  submitted.
\<close>

definition at_select_document :: world where
  "at_select_document = step session_created (Settle 3 TimerDone)"

definition at_enter_doc_number :: world where
  "at_enter_doc_number =
     run at_select_document
       [DocBtn (JStr ''PAN''), Settle 5 (FetchDone (ok_json (JObj [(''doc_type'', JStr ''PAN'')])))]"

definition at_upload :: world where
  "at_upload =
     run at_enter_doc_number
       [SubmitDocNumber ''ABCDE1234F'',
        Settle 7 (FetchDone (ok_json (JObj [(''doc_number'', JStr ''ABCDE1234F'')])))]"

definition file_submitted :: world where
  "file_submitted = run at_upload [FileChosen (Some 0), UploadDocClick]"

definition at_selfie :: world where
  "at_selfie =
     run file_submitted
       [Settle 10 (FetchDone (ok_json (JObj [(''next_step'', JStr ''SELFIE'')]))), ProceedToSelfie]"

definition selfie_ready :: world where
  "selfie_ready =
     run at_selfie
       [Settle 12 (MediaDone (Granted True)), CaptureSelfie 720, Settle 14 (BlobDone (Some 1))]"

definition selfie_submitted :: world where
  "selfie_submitted = step selfie_ready UploadSelfie"

text \<open>
  In the upload view, the camera source is chosen and granted and a frame is captured:
  stream 10 is open.
\<close>

definition camera_captured :: world where
  "camera_captured =
     run at_upload
       [SourceChange ''camera'', Settle 9 (MediaDone (Granted True)), DocCapture,
        Settle 11 (BlobDone (Some 0))]"

text \<open>
  In the upload view, the source is switched to the camera, back to the file and to the
  camera again before the browser has answered: the requests 9 and 10 for the camera are
  both pending.
\<close>

definition source_toggled :: world where
  "source_toggled =
     run at_upload [SourceChange ''camera'', SourceChange ''file'', SourceChange ''camera'']"

text \<open>
  The selfie view is left with its cancel button before the browser has answered the
  request 12 for the camera.
\<close>

definition selfie_left :: world where
  "selfie_left = step at_selfie CancelSelfie"

text \<open>
  The same submission of the form while localStorage takes no write: request 2 is
  pending.
\<close>

definition submitted_storage_full :: world where
  "submitted_storage_full =
     run (boot None) [StorageQuota False, StartKyc, SubmitCreateSession ''A'' ''9876543210'' ''25'']"

text \<open>
  A response with status 200 and a body of the given text, which is not declared as JSON
  and does not parse as JSON.
\<close>

definition ok_text :: "string \<Rightarrow> response" where
  "ok_text t =
     \<lparr>res_ok = True, res_status = 200, res_is_json = False,
      res_text = Some t, res_json = None\<rparr>"

text \<open>
  A response with status 200 and the selfie marker whose \<^verbatim>\<open>storage_url\<close> is the
  object \<^verbatim>\<open>{toString: 1}\<close>.
\<close>

definition selfie_unprintable :: response where
  "selfie_unprintable =
     \<lparr>res_ok = True, res_status = 200, res_is_json = True, res_text = None,
      res_json = Some (JObj [(''next_step'', JStr ''SELFIE''),
                             (''storage_url'', JObj [(''toString'', JNum 1)])])\<rparr>"

text \<open>The header button for the home view is clicked while the upload request 10 is pending.\<close>

definition upload_abandoned :: world where
  "upload_abandoned = step file_submitted NavHome"

text \<open>A session record as the admin API returns it, with the given status.\<close>

definition session_record :: "jsval \<Rightarrow> jsval" where
  "session_record s =
     JObj [(''session_id'', JStr ''S1''), (''status'', s), (''current_step'', JStr ''SELFIE''),
           (''customer_id'', JNum 7),
           (''documents'',
              JArr [JObj [(''doc_type'', JStr ''PAN''), (''doc_number'', JStr ''ABCDE1234F''),
                          (''is_valid'', JBool True), (''quality_score'', JNull)]]),
           (''retries_select'', JNum 0), (''retries_scan'', JNum 1),
           (''retries_upload'', JNum 0), (''retries_selfie'', JNum 0),
           (''created_at'', JStr ''2024-03-15T10:00:00''),
           (''updated_at'', JStr ''2024-03-15T10:05:00'')]"

text \<open>A response with status 200 and the selfie marker, and nothing else.\<close>

definition selfie_plain :: response where
  "selfie_plain =
     \<lparr>res_ok = True, res_status = 200, res_is_json = True, res_text = None,
      res_json = Some (JObj [(''next_step'', JStr ''SELFIE'')])\<rparr>"

text \<open>
  A response with the given error status and a body of the given text, which is not
  declared as JSON and does not parse as JSON.
\<close>

definition error_text :: "nat \<Rightarrow> string \<Rightarrow> response" where
  "error_text code t =
     \<lparr>res_ok = False, res_status = code, res_is_json = False,
      res_text = Some t, res_json = None\<rparr>"

section \<open>Conditions in the words of the specification\<close>

text \<open>
  What the create-session handler accepts: a name that is not empty after trimming, a
  trimmed mobile value of exactly ten digits, and an age that \<^verbatim>\<open>parseInt\<close> reads as a
  number of at least 18.
\<close>

definition accepts_create_session :: "string \<Rightarrow> string \<Rightarrow> string \<Rightarrow> bool" where
  "accepts_create_session i_name i_mobile i_age =
     (js_trim i_name \<noteq> [] \<and> matches_ten_digits (js_trim i_mobile) \<and>
      (case parseInt10 i_age of None \<Rightarrow> False | Some a \<Rightarrow> 18 \<le> a))"

text \<open>
  The specification's condition, which asks for an age that is a valid integer: an
  optional sign and decimal digits, nothing else.
\<close>

definition spec_integer_string :: "string \<Rightarrow> bool" where
  "spec_integer_string s =
     (case s of
        [] \<Rightarrow> False
      | c # r \<Rightarrow> if c = CHR ''+'' \<or> c = CHR ''-'' then r \<noteq> [] \<and> list_all is_digit r
                 else list_all is_digit s)"

definition spec_create_session_valid :: "string \<Rightarrow> string \<Rightarrow> string \<Rightarrow> bool" where
  "spec_create_session_valid i_name i_mobile i_age =
     (js_trim i_name \<noteq> [] \<and> matches_ten_digits (js_trim i_mobile) \<and>
      spec_integer_string i_age \<and> (case parseInt10 i_age of None \<Rightarrow> False | Some a \<Rightarrow> 18 \<le> a))"

text \<open>The session fields that the wizard accumulates.\<close>

definition session_fields :: "world \<Rightarrow> jsval \<times> jsval \<times> jsval \<times> jsval \<times> jsval \<times> jsval" where
  "session_fields w =
     (sessionId (st w), name (st w), mobile (st w), age (st w),
      documentType (st w), documentNumber (st w))"

text \<open>
  What the body of a response to a document upload says, read from the response itself:
  the JSON value of a body declared as JSON (\<open>None\<close> when it does not parse); for a
  body of another type the JSON value of its text when the text parses, the empty object
  when there is no text, and otherwise the directive \<^verbatim>\<open>SCAN_DOC\<close> with the text as
  the reason.
\<close>

definition upload_data :: "response \<Rightarrow> jsval option" where
  "upload_data r =
     (if res_is_json r then res_json r
      else (case res_text r of
              None \<Rightarrow> Some (JObj [])
            | Some t \<Rightarrow>
                if t = [] then Some (JObj [])
                else (case res_json r of
                        Some v \<Rightarrow> Some v
                      | None \<Rightarrow>
                          Some (JObj [(''next_step'', JStr ''SCAN_DOC''), (''reason'', JStr t)]))))"

text \<open>
  Whether a response carries the selfie marker as its next-step directive: its body can
  be read, is not null, and \<^verbatim>\<open>next_step || nextStep\<close> is the string \<^verbatim>\<open>SELFIE\<close>.
\<close>

definition says_selfie :: "response \<Rightarrow> bool" where
  "says_selfie r =
     (case upload_data r of
        None \<Rightarrow> False
      | Some d \<Rightarrow>
          \<not> nullish d \<and>
          js_or (get_field d ''next_step'') (get_field d ''nextStep'') = JStr ''SELFIE'')"

text \<open>
  The storage label that the confirmation prints, and whether a response both carries
  the selfie marker and has a label that can be printed.
\<close>

definition storage_label :: "jsval \<Rightarrow> jsval" where
  "storage_label d = js_or (get_field d ''storage_url'') (JStr ''uploaded'')"

definition offers_selfie :: "response \<Rightarrow> bool" where
  "offers_selfie r =
     (case upload_data r of
        None \<Rightarrow> False
      | Some d \<Rightarrow> says_selfie r \<and> \<not> str_throws (storage_label d))"

text \<open>The server's reason, or the generic mismatch message.\<close>

definition mismatch_reason :: "jsval \<Rightarrow> jsval" where
  "mismatch_reason d =
     js_or (get_field d ''reason'') (JStr ''OCR did not match. Please re-upload a clearer image.'')"

definition mismatch_text :: "jsval \<Rightarrow> jstext" where
  "mismatch_text d = ToStr (mismatch_reason d)"

text \<open>The server's reason or detail, or the generic OCR failure message.\<close>

definition failure_reason :: "jsval \<Rightarrow> jsval" where
  "failure_reason d =
     js_or (js_and d (js_or (get_field d ''reason'') (get_field d ''detail'')))
       (JStr ''OCR validation failed'')"

definition failure_text :: "jsval \<Rightarrow> jstext" where
  "failure_text d = Cat (Lit ''OCR failed: '') (ToStr (failure_reason d))"

text \<open>
  The generic upload failure message, with the wording of the engine's error.
\<close>

definition upload_failure_text :: "js_error \<Rightarrow> jstext" where
  "upload_failure_text e =
     Cat (Lit ''Upload/OCR failed: '') (OrElse (err_message e) ''server error'')"

text \<open>
  The message that a response leaves in the result element when it does not offer the
  selfie step. For a failure status: the server's reason or detail, or the generic OCR
  failure message. For a success status without the selfie marker: the server's reason,
  or the generic mismatch message. In both cases the generic upload failure message
  instead when the body cannot be read (a SyntaxError), when it is null, or when the text
  to show (for the selfie marker, the storage label) cannot be converted to a string (a
  TypeError).
\<close>

definition retry_message :: "response \<Rightarrow> jstext" where
  "retry_message r =
     (case upload_data r of
        None \<Rightarrow> upload_failure_text SyntaxError
      | Some d \<Rightarrow>
          if nullish d then upload_failure_text TypeError
          else if \<not> res_ok r
          then (if str_throws (failure_reason d) then upload_failure_text TypeError
                else failure_text d)
          else if says_selfie r then upload_failure_text TypeError
          else if str_throws (mismatch_reason d) then upload_failure_text TypeError
          else mismatch_text d)"

text \<open>
  What the body of a response says to \<^verbatim>\<open>apiFetch\<close>, read from the response
  itself: the JSON value of a body declared as JSON (\<open>None\<close> when it does not parse);
  for a body of another type \<^verbatim>\<open>null\<close> when there is no text, the JSON value of the
  text when it parses, and the text otherwise.
\<close>

definition api_data :: "response \<Rightarrow> jsval option" where
  "api_data r =
     (if res_is_json r then res_json r
      else (case res_text r of
              None \<Rightarrow> Some JNull
            | Some t \<Rightarrow>
                if t = [] then Some JNull
                else (case res_json r of Some v \<Rightarrow> Some v | None \<Rightarrow> Some (JStr t))))"

text \<open>
  The session identifier that the answer to the create-session request delivers: the
  request did not fail (there is a response, its status is a success and its body can be
  read), and the first of \<^verbatim>\<open>session_id\<close>, \<^verbatim>\<open>sessionId\<close> and \<^verbatim>\<open>id\<close> of the
  body that is truthy; \<open>None\<close> when the request failed or the body is null or holds none
  of the three.
\<close>

definition delivered_sid :: "fetch_result \<Rightarrow> jsval option" where
  "delivered_sid fr =
     (case fr of
        Rejected m \<Rightarrow> None
      | Responded r \<Rightarrow>
          if \<not> res_ok r then None
          else (case api_data r of
                  None \<Rightarrow> None
                | Some body \<Rightarrow>
                    if nullish body then None
                    else if truthy (get_field body ''session_id'') then Some (get_field body ''session_id'')
                    else if truthy (get_field body ''sessionId'') then Some (get_field body ''sessionId'')
                    else if truthy (get_field body ''id'') then Some (get_field body ''id'')
                    else None))"

text \<open>
  The specification's atomic update of the client state by session creation: from \<open>w\<close>
  to \<open>w'\<close> either the session fields and the persisted identifier are all unchanged, or
  the session identifier is new and the persisted identifier is its string.
\<close>

definition atomic_update :: "world \<Rightarrow> world \<Rightarrow> bool" where
  "atomic_update w w' =
     ((sessionId (st w') = sessionId (st w) \<and> name (st w') = name (st w) \<and>
       mobile (st w') = mobile (st w) \<and> age (st w') = age (st w) \<and>
       storage w' = storage w)
      \<or> storage w' = Some (ToStr (sessionId (st w'))))"

text \<open>
  A record that the detail view can lay out: it is not null, no element of its list of
  documents is null, and every value that the layout prints can be converted to a
  string.
\<close>

definition printable_document :: "jsval \<Rightarrow> bool" where
  "printable_document doc =
     (doc \<noteq> JNull \<and> doc \<noteq> JUndefined \<and>
      \<not> str_throws (js_or (get_field doc ''doc_type'') (JStr ''-'')) \<and>
      \<not> str_throws (js_or (get_field doc ''doc_number'') (JStr ''-'')) \<and>
      \<not> str_throws (if nullish (get_field doc ''quality_score'') then JStr ''-''
                       else get_field doc ''quality_score''))"

definition displayable :: "jsval \<Rightarrow> bool" where
  "displayable d =
     (d \<noteq> JNull \<and> d \<noteq> JUndefined \<and>
      (case get_field d ''documents'' of JArr ds \<Rightarrow> list_all printable_document ds | _ \<Rightarrow> True) \<and>
      \<not> str_throws (get_field d ''session_id'') \<and> \<not> str_throws (get_field d ''status'') \<and>
      \<not> str_throws (get_field d ''current_step'') \<and> \<not> str_throws (get_field d ''customer_id'') \<and>
      \<not> str_throws (get_field d ''retries_select'') \<and> \<not> str_throws (get_field d ''retries_scan'') \<and>
      \<not> str_throws (get_field d ''retries_upload'') \<and> \<not> str_throws (get_field d ''retries_selfie'') \<and>
      \<not> str_throws (get_field d ''created_at'') \<and> \<not> str_throws (get_field d ''updated_at''))"

text \<open>
  The record that a response delivers to the detail view: the request did not fail and
  the record is displayable.
\<close>

definition delivered_record :: "fetch_result \<Rightarrow> jsval option" where
  "delivered_record fr =
     (case fr of
        Rejected m \<Rightarrow> None
      | Responded r \<Rightarrow>
          if \<not> res_ok r then None
          else (case api_data r of
                  None \<Rightarrow> None
                | Some d \<Rightarrow> if displayable d then Some d else None))"

text \<open>The specification's table of actions by status.\<close>

definition status_actions :: "jsval \<Rightarrow> action list" where
  "status_actions s =
     (if s = JStr ''APPROVED'' then [ApprovedBadge, RejectButton]
      else if s = JStr ''REJECTED'' then [ApproveButton]
      else [ApproveButton, RejectButton])"

text \<open>
  The pending operations once the continuation numbered \<open>k\<close> has run and has set the
  timer that shows the upload step again after 1200 milliseconds.
\<close>

definition retry_timer :: "world \<Rightarrow> nat \<Rightarrow> nat \<Rightarrow> op option" where
  "retry_timer w k = (pending w)(k := None, fresh w \<mapsto> OpTimer 1200 GoUploadDocument)"

text \<open>
  One failed attempt from the upload view: choose a file, submit it, receive the
  response, let the timer fire. The upload view is ready when it shows its file input and
  a session is stored.
\<close>

definition failed_attempt :: "blob \<Rightarrow> response \<Rightarrow> world \<Rightarrow> world" where
  "failed_attempt f r w =
     run w [FileChosen (Some f), UploadDocClick,
            Settle (Suc (fresh w)) (FetchDone (Responded r)),
            Settle (Suc (Suc (fresh w))) TimerDone]"

definition upload_ready :: "world \<Rightarrow> bool" where
  "upload_ready w = (view w = UploadDocument \<and> file_input w \<and> truthy (sessionId (st w)))"

text \<open>
  The number of days of month \<open>m\<close> (1 for January), and the value that a date input
  holds for a date of the years 0 to 9999: \<^verbatim>\<open>YYYY-MM-DD\<close>.
\<close>

definition days_in_month :: "bool \<Rightarrow> int \<Rightarrow> int" where
  "days_in_month leap m = month_start leap m - month_start leap (m - 1)"

definition date_value :: "nat \<Rightarrow> nat \<Rightarrow> nat \<Rightarrow> string" where
  "date_value y m d = pad4 y @ ''-'' @ pad2 m @ ''-'' @ pad2 d"

section \<open>Properties\<close>

subsection \<open>Strings and the remote client\<close>

lemma parseInt10_examples:
  "parseInt10 ''25'' = Some 25" "parseInt10 ''18.5'' = Some 18" "parseInt10 ''abc'' = None"
  "parseInt10 '' -7x'' = Some (-7)" "parseInt10 '''' = None"
  by (simp_all add: parseInt10_def is_ws_def is_digit_def digits_value_def digit_val_def)

lemma apiFetch_ok_json: "apiFetch (ok_json v) = Inr v"
  by (simp add: apiFetch_def apiFetch_body_def ok_json_def)

subsection \<open>The moderation console: actions by status\<close>

lemma apiFetch_data:
  "apiFetch (Responded r) =
     (case api_data r of
        None \<Rightarrow> Inl SyntaxError
      | Some b \<Rightarrow>
          if res_ok r then Inr b
          else if str_throws (apiFetch_errVal b) then Inl TypeError
          else Inl (HttpError (res_status r) b (apiFetch_errMsg (res_status r) b)))"
  by (simp add: apiFetch_def apiFetch_body_def api_data_def split: option.splits)

lemma document_error_iff: "document_error doc \<longleftrightarrow> \<not> printable_document doc"
  by (auto simp add: document_error_def printable_document_def nullish_def js_coalesce_def)

lemma documents_error_iff:
  "documents_error d \<longleftrightarrow>
     \<not> (case get_field d ''documents'' of JArr ds \<Rightarrow> list_all printable_document ds | _ \<Rightarrow> True)"
  by (simp add: documents_error_def document_error_iff list_ex_iff list_all_iff split: jsval.splits)

lemma displayable_iff:
  "displayable d \<longleftrightarrow> \<not> nullish d \<and> \<not> documents_error d \<and> \<not> layout_error d"
  unfolding documents_error_iff
  by (auto simp add: displayable_def nullish_def layout_error_def detail_fields_def)

lemma action_bar_table: "action_bar d = status_actions (get_field d ''status'')"
  by (simp add: action_bar_def status_actions_def Let_def)

lemma delivered_session_record:
  "\<not> str_throws s \<Longrightarrow> delivered_record (ok_json (session_record s)) = Some (session_record s)"
  by (simp add: delivered_record_def ok_json_def api_data_def displayable_def session_record_def
      printable_document_def js_or_def nullish_def)

lemma status_session_record: "get_field (session_record s) ''status'' = s"
  by (simp add: session_record_def)



subsection \<open>Create session: validation before the request\<close>

lemmas basic_defs = showMessage_def send_def await_def stop_tracks_def set_activeStream_def
  stopActiveStream_def setMain_def

lemmas string_defs = js_trim_def is_ws_def is_digit_def matches_ten_digits_def parseInt10_def
  digits_value_def digit_val_def

lemma at_create_session_view: "view at_create_session = CreateSession"
  by (simp add: at_create_session_def run_def boot_def showHome_def renderCreateSession_def
      basic_defs)

lemma at_create_session_sent: "sent at_create_session = []"
  by (simp add: at_create_session_def run_def boot_def showHome_def renderCreateSession_def
      basic_defs)

text \<open>
  Claim C3, as amended. On every submission of the create-session form, the request is
  sent exactly when the trimmed name is not empty, the trimmed mobile value is exactly ten
  digits, and \<^verbatim>\<open>parseInt\<close> reads from the age field a number of at least 18: it is
  then the POST of the trimmed name and mobile. Otherwise nothing is sent, nothing is
  pending, the state is untouched and one message is shown.
\<close>

theorem C3_request_iff_accepted:
  assumes "view w = CreateSession"
  shows "if accepts_create_session i_name i_mobile i_age
         then sent (step w (SubmitCreateSession i_name i_mobile i_age))
                = sent w @ [PostSession (js_trim i_name) (js_trim i_mobile)]
         else sent (step w (SubmitCreateSession i_name i_mobile i_age)) = sent w
              \<and> pending (step w (SubmitCreateSession i_name i_mobile i_age)) = pending w
              \<and> st (step w (SubmitCreateSession i_name i_mobile i_age)) = st w
              \<and> (\<exists>m. shown (step w (SubmitCreateSession i_name i_mobile i_age))
                        = shown w @ [(CreateSessionMsg, Lit m)])"
  using assms
  by (auto simp add: accepts_create_session_def submit_create_session_def Let_def basic_defs
      split: option.splits)

theorem C3_request_iff_accepted_witness:
  "sent (step at_create_session (SubmitCreateSession ''A'' ''9876543210'' ''25''))
     = [PostSession ''A'' ''9876543210'']"
proof -
  have acc: "accepts_create_session ''A'' ''9876543210'' ''25''"
    by (simp add: accepts_create_session_def string_defs)
  have tr: "js_trim ''A'' = ''A''" "js_trim ''9876543210'' = ''9876543210''"
    by (simp_all add: string_defs)
  show ?thesis
    using C3_request_iff_accepted [OF at_create_session_view, of "''A''" "''9876543210''" "''25''"]
    by (simp only: acc if_True tr at_create_session_sent append_Nil)
qed

text \<open>
  The claim as the specification states it fails: the age \<^verbatim>\<open>18.5\<close> is not a valid
  integer, and the request is sent, because \<^verbatim>\<open>parseInt\<close> stops reading at the point.
\<close>

theorem C3_counterexample:
  "view at_create_session = CreateSession
   \<and> sent (step at_create_session (SubmitCreateSession ''A'' ''9876543210'' ''18.5''))
       = sent at_create_session @ [PostSession ''A'' ''9876543210'']
   \<and> \<not> spec_create_session_valid ''A'' ''9876543210'' ''18.5''"
proof -
  have acc: "accepts_create_session ''A'' ''9876543210'' ''18.5''"
    by (simp add: accepts_create_session_def string_defs)
  have tr: "js_trim ''A'' = ''A''" "js_trim ''9876543210'' = ''9876543210''"
    by (simp_all add: string_defs)
  have "sent (step at_create_session (SubmitCreateSession ''A'' ''9876543210'' ''18.5''))
       = sent at_create_session @ [PostSession ''A'' ''9876543210'']"
    using acc tr at_create_session_view
    by (simp add: submit_create_session_def accepts_create_session_def Let_def basic_defs
        split: option.splits)
  moreover have "\<not> spec_create_session_valid ''A'' ''9876543210'' ''18.5''"
    by (simp add: spec_create_session_valid_def spec_integer_string_def is_digit_def)
  ultimately show ?thesis using at_create_session_view by simp
qed

subsection \<open>Create session: what the response changes\<close>

lemma bit_len_bound: "n < 2 ^ k \<Longrightarrow> bit_len n \<le> k"
proof (induction k arbitrary: n)
  case 0
  then show ?case by simp
next
  case (Suc k)
  have "n div 2 < 2 ^ k" using Suc.prems by simp
  from Suc.IH [OF this] show ?case by simp
qed

lemma parsed_number_exact:
  assumes "\<bar>a\<bar> < 2 ^ 53"
  shows "parsed_number a = JNum (of_int a)"
proof -
  from assms have "bit_len \<bar>a\<bar> \<le> 53" by (rule bit_len_bound)
  then show ?thesis by (simp add: parsed_number_def round_to_double_def)
qed

lemma parsed_number_rounds:
  "parsed_number 9007199254740993 = JNum 9007199254740992"
  "parsed_number 123456789012345678901234567890 = JNum 123456789012345677877719597056"
  "parsed_number (10 ^ 400) = JInfinity"
  by code_simp+

lemma step_Settle: "step w (Settle k c) = settle k c w"
  by simp

lemma created_cases:
  assumes "pending w k = Some (OpCreateSession nm mob a)"
  shows "settle k (FetchDone fr) w = created_session nm mob a fr (w\<lparr>pending := (pending w)(k := None)\<rparr>)"
  using assms by (simp add: settle_def)

lemma response_sid_delivered:
  "(case apiFetch fr of Inl e \<Rightarrow> Inl e | Inr body \<Rightarrow> response_sid body)
     = (case delivered_sid fr of
          None \<Rightarrow> Inl (case apiFetch fr of Inl e \<Rightarrow> e
                        | Inr body \<Rightarrow> if nullish body then TypeError
                                       else Error (Lit ''No session_id in response''))
        | Some sid \<Rightarrow> Inr sid)"
proof (cases fr)
  case (Rejected m)
  then show ?thesis by (simp add: apiFetch_def delivered_sid_def)
next
  case (Responded r)
  show ?thesis
    unfolding Responded apiFetch_data
    by (auto simp add: delivered_sid_def response_sid_def first_sid_def js_or_def Let_def
        split: option.splits)
qed

text \<open>
  Claim C10, as the program has it. When the create-session request settles without
  delivering a session identifier (the fetch is rejected, the status is not a success,
  the body cannot be read or is null, or none of \<^verbatim>\<open>session_id\<close>,
  \<^verbatim>\<open>sessionId\<close>, \<^verbatim>\<open>id\<close> holds a truthy value), the \<^verbatim>\<open>state\<close> object
  and the localStorage key are unchanged and nothing is scheduled. When it delivers one,
  the identifier, the name, the mobile and the age (the number \<^verbatim>\<open>parseInt\<close> gave)
  are assigned first; then the identifier replaces the persisted one and the timer for
  the next view is set, provided localStorage takes the write and the identifier can be
  converted to a string; when \<^verbatim>\<open>setItem\<close> throws, the four fields keep their new
  values, the persisted identifier is not replaced and nothing is scheduled.
\<close>

theorem C10_session_creation_update:
  assumes "pending w k = Some (OpCreateSession nm mob a)"
    and "w' = step w (Settle k (FetchDone fr))"
  shows "(delivered_sid fr = None \<longrightarrow>
            st w' = st w \<and> storage w' = storage w \<and> pending w' = (pending w)(k := None))
     \<and> (\<forall>m. fr = Rejected m \<longrightarrow> st w' = st w \<and> storage w' = storage w)
     \<and> (\<forall>r. fr = Responded r \<and> \<not> res_ok r \<longrightarrow> st w' = st w \<and> storage w' = storage w)
     \<and> (\<forall>sid. delivered_sid fr = Some sid \<longrightarrow>
            st w' = (st w)\<lparr>sessionId := sid, name := JStr nm, mobile := JStr mob,
                             age := parsed_number a\<rparr>
            \<and> (storage_ok w \<and> \<not> str_throws sid \<longrightarrow>
                 storage w' = Some (ToStr sid)
                 \<and> pending w' = (pending w)(k := None, fresh w \<mapsto> OpTimer 300 GoSelectDocument))
            \<and> (\<not> (storage_ok w \<and> \<not> str_throws sid) \<longrightarrow>
                 storage w' = storage w \<and> pending w' = (pending w)(k := None)))"
proof -
  let ?w0 = "w\<lparr>pending := (pending w)(k := None)\<rparr>"
  have eq: "w' = created_session nm mob a fr ?w0"
    unfolding assms(2) step_Settle by (rule created_cases [OF assms(1)])
  have none: "st w' = st w \<and> storage w' = storage w \<and> pending w' = (pending w)(k := None)"
    if "delivered_sid fr = None"
    using that
    by (simp add: eq created_session_def response_sid_delivered create_session_failed_def basic_defs)
  have rej: "delivered_sid (Rejected m) = None" for m
    by (simp add: delivered_sid_def)
  have nok: "delivered_sid (Responded r) = None" if "\<not> res_ok r" for r
    using that by (simp add: delivered_sid_def)
  have some: "st w' = (st w)\<lparr>sessionId := sid, name := JStr nm, mobile := JStr mob,
                             age := parsed_number a\<rparr>
            \<and> (storage_ok w \<and> \<not> str_throws sid \<longrightarrow>
                 storage w' = Some (ToStr sid)
                 \<and> pending w' = (pending w)(k := None, fresh w \<mapsto> OpTimer 300 GoSelectDocument))
            \<and> (\<not> (storage_ok w \<and> \<not> str_throws sid) \<longrightarrow>
                 storage w' = storage w \<and> pending w' = (pending w)(k := None))"
    if "delivered_sid fr = Some sid" for sid
    using that
    by (simp add: eq created_session_def response_sid_delivered create_session_failed_def
        setItem_def Let_def basic_defs)
  have c1: "delivered_sid fr = None \<longrightarrow>
            st w' = st w \<and> storage w' = storage w \<and> pending w' = (pending w)(k := None)"
    by (rule impI) (rule none)
  have c2: "\<forall>m. fr = Rejected m \<longrightarrow> st w' = st w \<and> storage w' = storage w"
  proof (intro allI impI)
    fix m assume "fr = Rejected m"
    then have "delivered_sid fr = None" by (simp add: rej)
    from none [OF this] show "st w' = st w \<and> storage w' = storage w" by simp
  qed
  have c3: "\<forall>r. fr = Responded r \<and> \<not> res_ok r \<longrightarrow> st w' = st w \<and> storage w' = storage w"
  proof (intro allI impI)
    fix r assume "fr = Responded r \<and> \<not> res_ok r"
    then have "delivered_sid fr = None" by (simp add: nok)
    from none [OF this] show "st w' = st w \<and> storage w' = storage w" by simp
  qed
  have c4: "\<forall>sid. delivered_sid fr = Some sid \<longrightarrow>
            st w' = (st w)\<lparr>sessionId := sid, name := JStr nm, mobile := JStr mob,
                             age := parsed_number a\<rparr>
            \<and> (storage_ok w \<and> \<not> str_throws sid \<longrightarrow>
                 storage w' = Some (ToStr sid)
                 \<and> pending w' = (pending w)(k := None, fresh w \<mapsto> OpTimer 300 GoSelectDocument))
            \<and> (\<not> (storage_ok w \<and> \<not> str_throws sid) \<longrightarrow>
                 storage w' = storage w \<and> pending w' = (pending w)(k := None))"
    by (intro allI impI) (rule some)
  show ?thesis by (rule conjI [OF c1 conjI [OF c2 conjI [OF c3 c4]]])
qed


lemma submitted_pending: "pending submitted 2 = Some (OpCreateSession ''A'' ''9876543210'' 25)"
  by code_simp

lemma submitted_state: "sessionId (st submitted) = JNull" "storage submitted = None"
  "storage_ok submitted" "name (st submitted) = JNull" "fresh submitted = 3"
  by code_simp+

text \<open>
  The update is not atomic. While localStorage takes no write, the response that
  delivers \<^verbatim>\<open>S1\<close> leaves the session identifier and the name assigned and the
  persisted identifier absent; so does, with a localStorage that takes writes, a response
  whose \<^verbatim>\<open>session_id\<close> is the object \<^verbatim>\<open>{toString: 1}\<close>.
\<close>

theorem C10_counterexample:
  "delivered_sid (ok_json (JObj [(''session_id'', JStr ''S1'')])) = Some (JStr ''S1'')
   \<and> sessionId (st submitted_storage_full) = JNull
   \<and> storage submitted_storage_full = None
   \<and> sessionId (st (step submitted_storage_full
                         (Settle 2 (FetchDone (ok_json (JObj [(''session_id'', JStr ''S1'')])))))) = JStr ''S1''
   \<and> name (st (step submitted_storage_full
                    (Settle 2 (FetchDone (ok_json (JObj [(''session_id'', JStr ''S1'')])))))) = JStr ''A''
   \<and> storage (step submitted_storage_full
                  (Settle 2 (FetchDone (ok_json (JObj [(''session_id'', JStr ''S1'')]))))) = None
   \<and> \<not> atomic_update submitted_storage_full
          (step submitted_storage_full
             (Settle 2 (FetchDone (ok_json (JObj [(''session_id'', JStr ''S1'')])))))
   \<and> \<not> atomic_update submitted
          (step submitted
             (Settle 2 (FetchDone (ok_json
                (JObj [(''session_id'', JObj [(''toString'', JNum 1)])])))))"
  by code_simp


lemma submitted_full_pending:
  "pending submitted_storage_full 2 = Some (OpCreateSession ''A'' ''9876543210'' 25)"
  "\<not> storage_ok submitted_storage_full" "storage submitted_storage_full = None"
  by code_simp+

theorem C10_session_creation_update_witness:
  "st (step submitted (Settle 2 (FetchDone (ok_json (JObj [(''session_id'', JStr ''S1'')])))))
     = (st submitted)\<lparr>sessionId := JStr ''S1'', name := JStr ''A'', mobile := JStr ''9876543210'',
                         age := JNum 25\<rparr>
   \<and> storage (step submitted (Settle 2 (FetchDone (ok_json (JObj [(''session_id'', JStr ''S1'')])))))
     = Some (ToStr (JStr ''S1''))
   \<and> pending (step submitted (Settle 2 (FetchDone (ok_json (JObj [(''session_id'', JStr ''S1'')]))))) 3
     = Some (OpTimer 300 GoSelectDocument)
   \<and> st (step submitted (Settle 2 (FetchDone (ok_json (JObj [(''status'', JStr ''ok'')])))))
     = st submitted
   \<and> storage (step submitted (Settle 2 (FetchDone (ok_json (JObj [(''status'', JStr ''ok'')])))))
     = None
   \<and> st (step submitted (Settle 2 (FetchDone (Rejected (Lit ''Failed to fetch''))))) = st submitted
   \<and> storage (step submitted (Settle 2 (FetchDone (Rejected (Lit ''Failed to fetch''))))) = None
   \<and> st (step submitted
            (Settle 2 (FetchDone (Responded (error_json 500 (JObj [(''session_id'', JStr ''S1'')]))))))
     = st submitted
   \<and> storage (step submitted
            (Settle 2 (FetchDone (Responded (error_json 500 (JObj [(''session_id'', JStr ''S1'')]))))))
     = None
   \<and> st (step submitted_storage_full
            (Settle 2 (FetchDone (ok_json (JObj [(''session_id'', JStr ''S1'')])))))
     = (st submitted_storage_full)\<lparr>sessionId := JStr ''S1'', name := JStr ''A'',
                                      mobile := JStr ''9876543210'', age := JNum 25\<rparr>
   \<and> storage (step submitted_storage_full
            (Settle 2 (FetchDone (ok_json (JObj [(''session_id'', JStr ''S1'')])))))
     = None"
proof -
  let ?ok = "ok_json (JObj [(''session_id'', JStr ''S1'')])"
  let ?no = "ok_json (JObj [(''status'', JStr ''ok'')])"
  let ?rj = "Rejected (Lit ''Failed to fetch'')"
  let ?er = "Responded (error_json 500 (JObj [(''session_id'', JStr ''S1'')]))"
  have d1: "delivered_sid ?ok = Some (JStr ''S1'')"
    by (simp add: delivered_sid_def ok_json_def api_data_def nullish_def)
  have d2: "delivered_sid ?no = None"
    by (simp add: delivered_sid_def ok_json_def api_data_def nullish_def)
  have d3: "delivered_sid ?rj = None"
    by (simp add: delivered_sid_def)
  have d4: "delivered_sid ?er = None"
    by (simp add: delivered_sid_def error_json_def)
  have n: "parsed_number 25 = JNum 25"
    using parsed_number_exact [of 25] by simp
  note a = C10_session_creation_update [OF submitted_pending refl, of ?ok,
      THEN conjunct2, THEN conjunct2, THEN conjunct2, rule_format, OF d1]
  note b = C10_session_creation_update [OF submitted_pending refl, of ?no,
      THEN conjunct1, rule_format, OF d2]
  note c = C10_session_creation_update [OF submitted_pending refl, of ?rj,
      THEN conjunct1, rule_format, OF d3]
  note d = C10_session_creation_update [OF submitted_pending refl, of ?er,
      THEN conjunct1, rule_format, OF d4]
  note e = C10_session_creation_update [OF submitted_full_pending(1) refl, of ?ok,
      THEN conjunct2, THEN conjunct2, THEN conjunct2, rule_format, OF d1]
  have 1: "st (step submitted (Settle 2 (FetchDone ?ok)))
     = (st submitted)\<lparr>sessionId := JStr ''S1'', name := JStr ''A'', mobile := JStr ''9876543210'',
                         age := JNum 25\<rparr>"
    using a [THEN conjunct1] by (simp only: n)
  have 2: "storage (step submitted (Settle 2 (FetchDone ?ok))) = Some (ToStr (JStr ''S1''))"
    "pending (step submitted (Settle 2 (FetchDone ?ok))) 3 = Some (OpTimer 300 GoSelectDocument)"
    using a [THEN conjunct2, THEN conjunct1] submitted_state(3,5) by simp_all
  have 3: "st (step submitted (Settle 2 (FetchDone ?no))) = st submitted"
    "storage (step submitted (Settle 2 (FetchDone ?no))) = None"
    using b submitted_state(2) by simp_all
  have 4: "st (step submitted (Settle 2 (FetchDone ?rj))) = st submitted"
    "storage (step submitted (Settle 2 (FetchDone ?rj))) = None"
    using c submitted_state(2) by simp_all
  have 5: "st (step submitted (Settle 2 (FetchDone ?er))) = st submitted"
    "storage (step submitted (Settle 2 (FetchDone ?er))) = None"
    using d submitted_state(2) by simp_all
  have 6: "st (step submitted_storage_full (Settle 2 (FetchDone ?ok)))
     = (st submitted_storage_full)\<lparr>sessionId := JStr ''S1'', name := JStr ''A'',
                                      mobile := JStr ''9876543210'', age := JNum 25\<rparr>"
    using e [THEN conjunct1] by (simp only: n)
  have 7: "storage (step submitted_storage_full (Settle 2 (FetchDone ?ok))) = None"
    using e [THEN conjunct2, THEN conjunct2] submitted_full_pending(2,3) by simp
  show ?thesis
    by (intro conjI 1 2 3 4 5 6 7)
qed

subsection \<open>Backward navigation keeps the session\<close>

lemma kept_by_stopActiveStream [simp]:
  "session_fields (stopActiveStream w) = session_fields w"
  "storage (stopActiveStream w) = storage w" "sent (stopActiveStream w) = sent w"
  "lastOcrResponse (st (stopActiveStream w)) = lastOcrResponse (st w)"
  by (simp_all add: session_fields_def stopActiveStream_def basic_defs split: option.splits)

lemma kept_by_setMain [simp]:
  "session_fields (setMain v w) = session_fields w"
  "storage (setMain v w) = storage w" "sent (setMain v w) = sent w"
  "lastOcrResponse (st (setMain v w)) = lastOcrResponse (st w)"
  by (simp_all add: session_fields_def setMain_def)

lemma kept_by_stopLocalCamera [simp]:
  "session_fields (stopLocalCamera cid w) = session_fields w"
  "storage (stopLocalCamera cid w) = storage w" "sent (stopLocalCamera cid w) = sent w"
  "lastOcrResponse (st (stopLocalCamera cid w)) = lastOcrResponse (st w)"
  by (simp_all add: session_fields_def stopLocalCamera_def set_doc_localStream_def basic_defs
      split: option.splits)

lemma kept_by_stopCamera [simp]:
  "session_fields (stopCamera cid w) = session_fields w"
  "storage (stopCamera cid w) = storage w" "sent (stopCamera cid w) = sent w"
  "lastOcrResponse (st (stopCamera cid w)) = lastOcrResponse (st w)"
  by (simp_all add: session_fields_def stopCamera_def set_selfie_localStream_def basic_defs
      split: option.splits)

lemma kept_by_renderUploadDocument [simp]:
  "session_fields (renderUploadDocument w) = session_fields w"
  "storage (renderUploadDocument w) = storage w" "sent (renderUploadDocument w) = sent w"
  "lastOcrResponse (st (renderUploadDocument w)) = lastOcrResponse (st w)"
  "view (renderUploadDocument w) = UploadDocument"
proof -
  let ?w1 = "setMain UploadDocument (stopActiveStream w)"
  let ?w2 = "?w1\<lparr>uploads := (uploads ?w1)(inst ?w1 \<mapsto>
                  \<lparr>chosenFile = None, doc_localStream = None, sourceArea = FileInput\<rparr>)\<rparr>"
  have r: "renderUploadDocument w
             = set_sourceArea (inst ?w1) FileInput (stopLocalCamera (inst ?w1) ?w2)"
    by (simp add: renderUploadDocument_def Let_def setupFileInput_def)
  have a: "\<And>x. session_fields (set_sourceArea (inst ?w1) FileInput x) = session_fields x"
    "\<And>x. storage (set_sourceArea (inst ?w1) FileInput x) = storage x"
    "\<And>x. sent (set_sourceArea (inst ?w1) FileInput x) = sent x"
    "\<And>x. lastOcrResponse (st (set_sourceArea (inst ?w1) FileInput x)) = lastOcrResponse (st x)"
    "\<And>x. view (set_sourceArea (inst ?w1) FileInput x) = view x"
    by (simp_all add: set_sourceArea_def session_fields_def split: option.splits)
  have b: "session_fields ?w2 = session_fields w" "storage ?w2 = storage w" "sent ?w2 = sent w"
    "lastOcrResponse (st ?w2) = lastOcrResponse (st w)"
    using kept_by_setMain kept_by_stopActiveStream
    by (simp_all add: session_fields_def)
  have c: "view (stopLocalCamera (inst ?w1) ?w2) = UploadDocument"
    by (simp add: stopLocalCamera_def set_doc_localStream_def basic_defs)
  show "session_fields (renderUploadDocument w) = session_fields w"
    "storage (renderUploadDocument w) = storage w" "sent (renderUploadDocument w) = sent w"
    "lastOcrResponse (st (renderUploadDocument w)) = lastOcrResponse (st w)"
    "view (renderUploadDocument w) = UploadDocument"
    by (simp_all only: r a b c kept_by_stopLocalCamera)
qed

text \<open>
  Claim C9. The back-to-select button, the cancel button of the upload view and the
  cancel button of the selfie view leave the session identifier, the name, the mobile,
  the age, the document type and the document number as they are; they leave the last
  OCR response and the persisted key alone and send nothing. Each, in its view, puts
  another view on screen.
\<close>

theorem C9_backward_navigation_keeps_session:
  assumes "ev = BackToSelect \<or> ev = CancelUploadDoc \<or> ev = CancelSelfie"
  shows "session_fields (step w ev) = session_fields w
         \<and> lastOcrResponse (st (step w ev)) = lastOcrResponse (st w)
         \<and> storage (step w ev) = storage w
         \<and> sent (step w ev) = sent w
         \<and> (view w = EnterDocNumber \<longrightarrow> view (step w BackToSelect) = SelectDocument)
         \<and> (view w = UploadDocument \<longrightarrow> view (step w CancelUploadDoc) = Home)
         \<and> (view w = SelfieUpload \<longrightarrow> view (step w CancelSelfie) = UploadDocument)"
proof -
  have views: "(view w = EnterDocNumber \<longrightarrow> view (step w BackToSelect) = SelectDocument)
         \<and> (view w = UploadDocument \<longrightarrow> view (step w CancelUploadDoc) = Home)
         \<and> (view w = SelfieUpload \<longrightarrow> view (step w CancelSelfie) = UploadDocument)"
    by (simp add: renderSelectDocument_def click_cancel_upload_doc_def showHome_def setMain_def)
  from assms consider "ev = BackToSelect" | "ev = CancelUploadDoc" | "ev = CancelSelfie" by blast
  then have "session_fields (step w ev) = session_fields w
         \<and> lastOcrResponse (st (step w ev)) = lastOcrResponse (st w)
         \<and> storage (step w ev) = storage w
         \<and> sent (step w ev) = sent w"
  proof cases
    case 1
    then show ?thesis by (simp add: renderSelectDocument_def)
  next
    case 2
    then show ?thesis by (simp add: click_cancel_upload_doc_def showHome_def)
  next
    case 3
    then show ?thesis by simp
  qed
  with views show ?thesis by simp
qed

theorem C9_backward_navigation_keeps_session_witness:
  "session_fields (step at_selfie CancelSelfie)
     = (JStr ''S1'', JStr ''A'', JStr ''9876543210'', JNum 25, JStr ''PAN'', JStr ''ABCDE1234F'')
   \<and> view (step at_selfie CancelSelfie) = UploadDocument"
proof -
  have f: "session_fields at_selfie
     = (JStr ''S1'', JStr ''A'', JStr ''9876543210'', JNum 25, JStr ''PAN'', JStr ''ABCDE1234F'')"
    by code_simp
  have v: "view at_selfie = SelfieUpload"
    by code_simp
  show ?thesis
    using C9_backward_navigation_keeps_session [of CancelSelfie at_selfie] f v by simp
qed

subsection \<open>Selfie submission\<close>

lemma kept_by_loadStatus:
  "st (loadStatus w) = st w" "view (loadStatus w) = view w"
  by (simp_all add: loadStatus_def basic_defs)

lemma view_renderStatusPage [simp]: "view (renderStatusPage w) = Status"
  by (simp add: renderStatusPage_def kept_by_loadStatus setMain_def)



subsection \<open>Document upload: the response decides\<close>

lemma validate_body_data:
  "validate_body r = (case upload_data r of None \<Rightarrow> Inl SyntaxError | Some d \<Rightarrow> Inr d)"
  by (simp add: validate_body_def upload_data_def split: option.splits)

lemma says_selfie_data:
  "upload_data r = Some d \<Longrightarrow> says_selfie r \<longleftrightarrow> \<not> nullish d \<and> next_step_of d = JStr ''SELFIE''"
  by (simp add: says_selfie_def next_step_of_def)

lemma validated_cases:
  assumes "pending w k = Some (OpValidateDocument p)"
  shows "settle k (FetchDone (Responded r)) w
           = validated_document p (Responded r) (w\<lparr>pending := (pending w)(k := None)\<rparr>)"
  using assms by (simp add: settle_def)

lemma retry_timer_fires:
  assumes "pending w' t = Some (OpTimer 1200 GoUploadDocument)"
  shows "view (step w' (Settle t TimerDone)) = UploadDocument"
  using assms by (simp add: settle_def)

lemma offered_outcome:
  assumes "pending w k = Some (OpValidateDocument p)" and "res_ok r" and "offers_selfie r"
    and "upload_data r = Some d"
  shows "settle k (FetchDone (Responded r)) w
           = set_panel p (PanelConfirm (storage_label d))
               (w\<lparr>pending := (pending w)(k := None), st := (st w)\<lparr>lastOcrResponse := d\<rparr>\<rparr>)"
  using assms(2,3,4)
  by (simp add: validated_cases [OF assms(1)] validated_document_def validate_body_data
      offers_selfie_def says_selfie_data storage_label_def Let_def)

lemma retry_outcome:
  assumes "pending w k = Some (OpValidateDocument p)" and "\<not> (res_ok r \<and> offers_selfie r)"
  shows "\<exists>s. settle k (FetchDone (Responded r)) w
           = w\<lparr>pending := retry_timer w k, fresh := Suc (fresh w),
                shown := shown w @ [(OcrResult p, retry_message r)],
                panels := (panels w)(p \<mapsto> PanelText (retry_message r)),
                st := (st w)\<lparr>lastOcrResponse := s\<rparr>\<rparr>"
proof (cases "upload_data r")
  case None
  then have "settle k (FetchDone (Responded r)) w
           = w\<lparr>pending := retry_timer w k, fresh := Suc (fresh w),
                shown := shown w @ [(OcrResult p, retry_message r)],
                panels := (panels w)(p \<mapsto> PanelText (retry_message r)),
                st := (st w)\<lparr>lastOcrResponse := lastOcrResponse (st w)\<rparr>\<rparr>"
    by (simp add: validated_cases [OF assms(1)] validated_document_def validate_body_data
        upload_failed_def retry_message_def upload_failure_text_def retry_timer_def
        set_panel_def basic_defs Let_def)
  then show ?thesis by blast
next
  case (Some d)
  show ?thesis
  proof (cases "nullish d")
    case True
    with Some have "settle k (FetchDone (Responded r)) w
           = w\<lparr>pending := retry_timer w k, fresh := Suc (fresh w),
                shown := shown w @ [(OcrResult p, retry_message r)],
                panels := (panels w)(p \<mapsto> PanelText (retry_message r)),
                st := (st w)\<lparr>lastOcrResponse := lastOcrResponse (st w)\<rparr>\<rparr>"
      by (simp add: validated_cases [OF assms(1)] validated_document_def validate_body_data
          upload_failed_def retry_message_def upload_failure_text_def retry_timer_def
          set_panel_def basic_defs Let_def)
    then show ?thesis by blast
  next
    case False
    with Some assms(2) have "settle k (FetchDone (Responded r)) w
           = w\<lparr>pending := retry_timer w k, fresh := Suc (fresh w),
                shown := shown w @ [(OcrResult p, retry_message r)],
                panels := (panels w)(p \<mapsto> PanelText (retry_message r)),
                st := (st w)\<lparr>lastOcrResponse := d\<rparr>\<rparr>"
      by (auto simp add: validated_cases [OF assms(1)] validated_document_def validate_body_data
          upload_failed_def retry_message_def upload_failure_text_def retry_timer_def
          offers_selfie_def says_selfie_data storage_label_def mismatch_text_def
          mismatch_reason_def failure_text_def failure_reason_def
          set_panel_def basic_defs Let_def)
    then show ?thesis by blast
  qed
qed


lemma retry_facts:
  assumes "pending w k = Some (OpValidateDocument p)" and "\<not> (res_ok r \<and> offers_selfie r)"
  shows "pending (settle k (FetchDone (Responded r)) w) = retry_timer w k"
    and "view (settle k (FetchDone (Responded r)) w) = view w"
    and "inst (settle k (FetchDone (Responded r)) w) = inst w"
    and "fresh (settle k (FetchDone (Responded r)) w) = Suc (fresh w)"
    and "sent (settle k (FetchDone (Responded r)) w) = sent w"
    and "session_fields (settle k (FetchDone (Responded r)) w) = session_fields w"
    and "storage (settle k (FetchDone (Responded r)) w) = storage w"
    and "shown (settle k (FetchDone (Responded r)) w) = shown w @ [(OcrResult p, retry_message r)]"
    and "panels (settle k (FetchDone (Responded r)) w) = (panels w)(p \<mapsto> PanelText (retry_message r))"
proof -
  from retry_outcome [OF assms] obtain s where
    e: "settle k (FetchDone (Responded r)) w
           = w\<lparr>pending := retry_timer w k, fresh := Suc (fresh w),
                shown := shown w @ [(OcrResult p, retry_message r)],
                panels := (panels w)(p \<mapsto> PanelText (retry_message r)),
                st := (st w)\<lparr>lastOcrResponse := s\<rparr>\<rparr>"
    by blast
  show "pending (settle k (FetchDone (Responded r)) w) = retry_timer w k"
    and "view (settle k (FetchDone (Responded r)) w) = view w"
    and "inst (settle k (FetchDone (Responded r)) w) = inst w"
    and "fresh (settle k (FetchDone (Responded r)) w) = Suc (fresh w)"
    and "sent (settle k (FetchDone (Responded r)) w) = sent w"
    and "session_fields (settle k (FetchDone (Responded r)) w) = session_fields w"
    and "storage (settle k (FetchDone (Responded r)) w) = storage w"
    and "shown (settle k (FetchDone (Responded r)) w) = shown w @ [(OcrResult p, retry_message r)]"
    and "panels (settle k (FetchDone (Responded r)) w) = (panels w)(p \<mapsto> PanelText (retry_message r))"
    by (simp_all add: e session_fields_def)
qed





subsection \<open>Document upload: a failure status always leads back to the upload step\<close>

lemma closure_renderUploadDocument:
  "uploads (renderUploadDocument w) (inst (renderUploadDocument w))
     = Some \<lparr>chosenFile = None, doc_localStream = None, sourceArea = FileInput\<rparr>"
  by (simp add: renderUploadDocument_def Let_def setupFileInput_def stopLocalCamera_def
      set_sourceArea_def basic_defs)

lemma file_input_renderUploadDocument: "file_input (renderUploadDocument w)"
  by (simp add: file_input_def closure_renderUploadDocument)

lemma sessionId_fields: "session_fields w' = session_fields w \<Longrightarrow> sessionId (st w') = sessionId (st w)"
  by (simp add: session_fields_def)

lemma failed_attempt_once:
  assumes "\<not> res_ok r" and "upload_ready w"
  shows "upload_ready (failed_attempt f r w)"
    and "sent (failed_attempt f r w) = sent w @ [PostValidateDocument (sessionId (st w)) f]"
    and "sessionId (st (failed_attempt f r w)) = sessionId (st w)"
proof -
  from assms(2) obtain c where c: "uploads w (inst w) = Some c" "sourceArea c = FileInput"
    and v: "view w = UploadDocument" and sid: "truthy (sessionId (st w))"
    by (auto simp add: upload_ready_def file_input_def split: option.splits)
  define w1 where "w1 = step w (FileChosen (Some f))"
  define w2 where "w2 = step w1 UploadDocClick"
  define w3 where "w3 = settle (Suc (fresh w)) (FetchDone (Responded r)) w2"
  define w4 where "w4 = settle (Suc (Suc (fresh w))) TimerDone w3"
  have fa: "failed_attempt f r w = w4"
    by (simp only: failed_attempt_def run_def foldl.simps step_Settle w1_def w2_def w3_def w4_def)
  have w1: "w1 = w\<lparr>uploads := (uploads w)(inst w \<mapsto> c\<lparr>chosenFile := Some f\<rparr>)\<rparr>"
    using c v by (simp add: w1_def file_input_def set_chosenFile_def)
  have w2: "pending w2 (Suc (fresh w)) = Some (OpValidateDocument (fresh w))"
    "fresh w2 = Suc (Suc (fresh w))"
    "sent w2 = sent w @ [PostValidateDocument (sessionId (st w)) f]"
    "session_fields w2 = session_fields w"
    using v sid
    by (simp_all add: w2_def w1 click_upload_doc_def Let_def basic_defs session_fields_def)
  from assms(1) have nr: "\<not> (res_ok r \<and> offers_selfie r)" by simp
  note r3 = retry_facts [OF w2(1) nr, folded w3_def]
  have p3: "pending w3 (Suc (Suc (fresh w))) = Some (OpTimer 1200 GoUploadDocument)"
    by (simp add: r3(1) retry_timer_def w2(2))
  have w4: "w4 = renderUploadDocument (w3\<lparr>pending := (pending w3)(Suc (Suc (fresh w)) := None)\<rparr>)"
    by (simp add: w4_def settle_def p3)
  have s3: "sent w3 = sent w @ [PostValidateDocument (sessionId (st w)) f]"
    "session_fields w3 = session_fields w"
    by (simp_all only: r3(5) r3(6) w2(3) w2(4))
  have s4: "sent w4 = sent w @ [PostValidateDocument (sessionId (st w)) f]"
    by (simp only: w4 kept_by_renderUploadDocument(3)) (simp add: s3(1))
  have f4: "session_fields w4 = session_fields w"
    using s3(2) by (simp only: w4 kept_by_renderUploadDocument(1)) (simp add: session_fields_def)
  have v4: "view w4 = UploadDocument" "file_input w4"
    by (simp_all only: w4 kept_by_renderUploadDocument(5) file_input_renderUploadDocument)
  show "upload_ready (failed_attempt f r w)"
    using v4 sid sessionId_fields [OF f4] by (simp add: fa upload_ready_def)
  show "sent (failed_attempt f r w) = sent w @ [PostValidateDocument (sessionId (st w)) f]"
    by (simp only: fa s4)
  show "sessionId (st (failed_attempt f r w)) = sessionId (st w)"
    using sessionId_fields [OF f4] by (simp only: fa)
qed

lemma failed_attempts:
  assumes "\<not> res_ok r" and "upload_ready w"
  shows "upload_ready ((failed_attempt f r ^^ n) w)
         \<and> sessionId (st ((failed_attempt f r ^^ n) w)) = sessionId (st w)
         \<and> sent ((failed_attempt f r ^^ n) w)
             = sent w @ replicate n (PostValidateDocument (sessionId (st w)) f)"
proof (induction n)
  case 0
  show ?case using assms(2) by simp
next
  case (Suc n)
  let ?v = "(failed_attempt f r ^^ n) w"
  from Suc.IH have ih: "upload_ready ?v" "sessionId (st ?v) = sessionId (st w)"
    "sent ?v = sent w @ replicate n (PostValidateDocument (sessionId (st w)) f)"
    by simp_all
  note once = failed_attempt_once [OF assms(1) ih(1), of f]
  have "sent (failed_attempt f r ?v)
          = sent w @ replicate (Suc n) (PostValidateDocument (sessionId (st w)) f)"
    by (simp only: once(2) ih(2) ih(3) append_assoc replicate_append_same [symmetric] replicate_Suc)
       
  with once(1) once(3) ih(2) show ?case by simp
qed




subsection \<open>The camera stream\<close>

lemma stopActiveStream_noop: "activeStream (st w) = None \<Longrightarrow> stopActiveStream w = w"
  by (simp add: stopActiveStream_def)

lemma stopActiveStream_released:
  "activeStream (st (stopActiveStream w)) = None"
  "activeStream (st w) = Some s \<Longrightarrow> s \<notin> set (open_streams (stopActiveStream w))"
  by (simp_all add: stopActiveStream_def basic_defs split: option.splits)

lemma stopActiveStream_idempotent: "stopActiveStream (stopActiveStream w) = stopActiveStream w"
  by (rule stopActiveStream_noop) (rule stopActiveStream_released(1))

text \<open>
  The views that a render function puts on screen start with the tracked stream
  released.
\<close>

lemma render_releases:
  "activeStream (st w) = Some s \<Longrightarrow> s \<notin> set (open_streams (showHome w))"
  "activeStream (st w) = Some s \<Longrightarrow> s \<notin> set (open_streams (renderCreateSession w))"
  "activeStream (st w) = Some s \<Longrightarrow> s \<notin> set (open_streams (renderSelectDocument w))"
  "activeStream (st w) = Some s \<Longrightarrow> s \<notin> set (open_streams (renderEnterDocNumber w))"
  "activeStream (st w) = Some s \<Longrightarrow> s \<notin> set (open_streams (renderUploadDocument w))"
  "activeStream (st w) = Some s \<Longrightarrow> s \<notin> set (open_streams (renderSelfieUpload w))"
  "activeStream (st w) = Some s \<Longrightarrow> s \<notin> set (open_streams (renderStatusPage w))"
  "activeStream (st w) = Some s \<Longrightarrow> s \<notin> set (open_streams (renderAdminList w))"
proof -
  have u: "open_streams (renderUploadDocument w) = open_streams (stopActiveStream w)"
    by (simp add: renderUploadDocument_def Let_def setupFileInput_def stopLocalCamera_def
        set_sourceArea_def basic_defs split: option.splits)
  have f: "open_streams (renderSelfieUpload w) = open_streams (stopActiveStream w)"
    by (simp add: renderSelfieUpload_def Let_def startCamera_def await_def setMain_def)
  have t: "open_streams (renderStatusPage w) = open_streams (stopActiveStream w)"
    by (simp add: renderStatusPage_def loadStatus_def showMessage_def send_def await_def
        setMain_def)
  have a: "open_streams (renderAdminList w) = open_streams (stopActiveStream w)"
    by (simp add: renderAdminList_def loadSessions_def send_def await_def setMain_def)
  assume "activeStream (st w) = Some s"
  then have "s \<notin> set (open_streams (stopActiveStream w))"
    by (rule stopActiveStream_released(2))
  then show "s \<notin> set (open_streams (showHome w))"
    "s \<notin> set (open_streams (renderCreateSession w))"
    "s \<notin> set (open_streams (renderSelectDocument w))"
    "s \<notin> set (open_streams (renderEnterDocNumber w))"
    "s \<notin> set (open_streams (renderUploadDocument w))"
    "s \<notin> set (open_streams (renderSelfieUpload w))"
    "s \<notin> set (open_streams (renderStatusPage w))"
    "s \<notin> set (open_streams (renderAdminList w))"
    by (simp_all add: u f t a showHome_def renderCreateSession_def renderSelectDocument_def
        renderEnterDocNumber_def setMain_def)
qed

text \<open>
  The upload button puts the progress view on screen and leaves every open stream open
  and tracked.
\<close>

lemma upload_click_keeps_streams:
  assumes "view w = UploadDocument" and "uploads w (inst w) = Some c"
    and "chosenFile c = Some f" and "truthy (sessionId (st w))"
  shows "view (step w UploadDocClick) = OcrProgress"
    and "open_streams (step w UploadDocClick) = open_streams w"
    and "activeStream (st (step w UploadDocClick)) = activeStream (st w)"
  using assms by (simp_all add: click_upload_doc_def Let_def basic_defs)

text \<open>
  Claim C7 fails on the code at the transition into the OCR progress view. With the
  camera of the upload view open on stream 10 and a frame captured, the upload button
  puts the progress view on screen while stream 10 stays open and stays the active
  stream: nothing released it on entering that view.
\<close>

theorem C7_ocr_progress_keeps_stream:
  "view camera_captured = UploadDocument
   \<and> open_streams camera_captured = [10]
   \<and> view (step camera_captured UploadDocClick) = OcrProgress
   \<and> open_streams (step camera_captured UploadDocClick) = [10]
   \<and> activeStream (st (step camera_captured UploadDocClick)) = Some 10"
  by code_simp

text \<open>
  Claim C2 fails on the code. When the source is switched to the camera twice before
  the browser answers, each answer opens a stream and the second replaces the first as
  the active stream without stopping it: streams 11 and 12 are open together. The same
  happens when the answer for the selfie camera arrives after the selfie view was left
  and the camera source is then chosen in the upload view: streams 14 and 16.
\<close>

theorem C2_two_streams_open:
  "open_streams (run source_toggled
       [Settle 9 (MediaDone (Granted True)), Settle 10 (MediaDone (Granted True))]) = [11, 12]
   \<and> activeStream (st (run source_toggled
       [Settle 9 (MediaDone (Granted True)), Settle 10 (MediaDone (Granted True))])) = Some 12
   \<and> open_streams (run selfie_left
       [Settle 12 (MediaDone (Granted True)), SourceChange ''camera'',
        Settle 15 (MediaDone (Granted True))]) = [14, 16]
   \<and> activeStream (st (run selfie_left
       [Settle 12 (MediaDone (Granted True)), SourceChange ''camera'',
        Settle 15 (MediaDone (Granted True))])) = Some 16"
  by code_simp

subsection \<open>Dates: the day range of a calendar date\<close>

lemma div_step:
  fixes a n :: int
  assumes "0 < n"
  shows "(a + 1) div n = a div n + (if (a + 1) mod n = 0 then 1 else 0)"
proof -
  define q where "q = a div n"
  define r where "r = a mod n"
  have a: "a = n * q + r" and r: "0 \<le> r" "r < n"
    using assms by (simp_all add: q_def r_def)
  show ?thesis
  proof (cases "r + 1 = n")
    case True
    have e: "a + 1 = n * (q + 1) + 0"
      using a True by (simp add: algebra_simps)
    have "(a + 1) div n = q + 1" "(a + 1) mod n = 0"
      using int_div_pos_eq [OF e] int_mod_pos_eq [OF e] assms by simp_all
    then show ?thesis by (simp add: q_def)
  next
    case False
    then have lt: "r + 1 < n" using r by simp
    have e: "a + 1 = n * q + (r + 1)"
      using a by simp
    have "(a + 1) div n = q" "(a + 1) mod n = r + 1"
      using int_div_pos_eq [OF e _ lt] int_mod_pos_eq [OF e _ lt] r by simp_all
    then show ?thesis using r by (simp add: q_def)
  qed
qed

lemma leap_mods:
  "(y - 1968) mod 4 = (y::int) mod 4" "(y - 1900) mod 100 = y mod 100" "(y - 1600) mod 400 = y mod 400"
proof -
  have "y - 1968 = y + 4 * (-492)" by simp
  then show "(y - 1968) mod 4 = y mod 4" by (simp only: mod_mult_self2)
  have "y - 1900 = y + 100 * (-19)" by simp
  then show "(y - 1900) mod 100 = y mod 100" by (simp only: mod_mult_self2)
  have "y - 1600 = y + 400 * (-4)" by simp
  then show "(y - 1600) mod 400 = y mod 400" by (simp only: mod_mult_self2)
qed

lemma mod_400_imp: "(y::int) mod 400 = 0 \<Longrightarrow> y mod 100 = 0" "(y::int) mod 100 = 0 \<Longrightarrow> y mod 4 = 0"
proof -
  assume "y mod 400 = 0"
  then have "400 dvd y" by (simp add: mod_eq_0_iff_dvd)
  moreover have "(100::int) dvd 400" by simp
  ultimately have "100 dvd y" by (rule dvd_trans [rotated])
  then show "y mod 100 = 0" by (simp add: mod_eq_0_iff_dvd)
next
  assume "y mod 100 = 0"
  then have "100 dvd y" by (simp add: mod_eq_0_iff_dvd)
  moreover have "(4::int) dvd 100" by simp
  ultimately have "4 dvd y" by (rule dvd_trans [rotated])
  then show "y mod 4 = 0" by (simp add: mod_eq_0_iff_dvd)
qed

lemma DayFromYear_Suc:
  "DayFromYear (y + 1) = DayFromYear y + (if InLeapYear y then 366 else 365)"
proof -
  have a: "(y + 1 - 1969) div 4 = (y - 1969) div 4 + (if y mod 4 = 0 then 1 else 0)"
  proof -
    have "y + 1 - 1969 = (y - 1969) + 1" "y - 1969 + 1 = y - 1968" by simp_all
    then show ?thesis using div_step [of 4 "y - 1969"] leap_mods(1) [of y] by simp
  qed
  have b: "(y + 1 - 1901) div 100 = (y - 1901) div 100 + (if y mod 100 = 0 then 1 else 0)"
  proof -
    have "y + 1 - 1901 = (y - 1901) + 1" "y - 1901 + 1 = y - 1900" by simp_all
    then show ?thesis using div_step [of 100 "y - 1901"] leap_mods(2) [of y] by simp
  qed
  have c: "(y + 1 - 1601) div 400 = (y - 1601) div 400 + (if y mod 400 = 0 then 1 else 0)"
  proof -
    have "y + 1 - 1601 = (y - 1601) + 1" "y - 1601 + 1 = y - 1600" by simp_all
    then show ?thesis using div_step [of 400 "y - 1601"] leap_mods(3) [of y] by simp
  qed
  show ?thesis
  proof (cases "y mod 4 = 0")
    case False
    have n100: "y mod 100 \<noteq> 0"
    proof
      assume "y mod 100 = 0"
      then have "y mod 4 = 0" by (rule mod_400_imp(2))
      with False show False by simp
    qed
    have "y mod 400 \<noteq> 0"
    proof
      assume "y mod 400 = 0"
      then have "y mod 100 = 0" by (rule mod_400_imp(1))
      with n100 show False by simp
    qed
    with False n100 show ?thesis
      unfolding DayFromYear_def InLeapYear_def a b c by simp
  next
    case 4: True
    show ?thesis
    proof (cases "y mod 100 = 0")
      case False
      have "y mod 400 \<noteq> 0"
      proof
        assume "y mod 400 = 0"
        then have "y mod 100 = 0" by (rule mod_400_imp(1))
        with False show False by simp
      qed
      with 4 False show ?thesis
        unfolding DayFromYear_def InLeapYear_def a b c by simp
    next
      case True
      with 4 show ?thesis
        unfolding DayFromYear_def InLeapYear_def a b c by simp
    qed
  qed
qed

lemma year_estimate:
  assumes "0 \<le> k" and "k \<le> 365"
  shows "1970 + (400 * (DayFromYear y + k)) div 146097 \<in> {y - 1, y, y + 1}"
proof -
  define q4 where "q4 = (y - 1969) div 4"
  define r4 where "r4 = (y - 1969) mod 4"
  define q100 where "q100 = (y - 1901) div 100"
  define r100 where "r100 = (y - 1901) mod 100"
  define q400 where "q400 = (y - 1601) div 400"
  define r400 where "r400 = (y - 1601) mod 400"
  define off where "off = 193 - 100 * r4 + 4 * r100 - r400 + 400 * k"
  have f4: "4 * q4 + r4 = y - 1969" and b4: "0 \<le> r4" "r4 < 4"
    by (simp_all add: q4_def r4_def)
  have f100: "100 * q100 + r100 = y - 1901" and b100: "0 \<le> r100" "r100 < 100"
    by (simp_all add: q100_def r100_def)
  have f400: "400 * q400 + r400 = y - 1601" and b400: "0 \<le> r400" "r400 < 400"
    by (simp_all add: q400_def r400_def)
  have D: "DayFromYear y = 365 * (y - 1970) + q4 - q100 + q400"
    by (simp add: DayFromYear_def q4_def q100_def q400_def)
  have g4: "400 * q4 = 100 * y - 196900 - 100 * r4"
    using f4 by linarith
  have g100: "400 * q100 = 4 * y - 7604 - 4 * r100"
    using f100 by linarith
  have g400: "400 * q400 = y - 1601 - r400"
    using f400 by linarith
  have "400 * (DayFromYear y + k) = 146000 * (y - 1970) + 400 * q4 - 400 * q100 + 400 * q400 + 400 * k"
    unfolding D by (simp add: algebra_simps)
  also have "\<dots> = 146097 * (y - 1970) + off"
    unfolding g4 g100 g400 off_def by (simp add: algebra_simps)
  finally have E: "400 * (DayFromYear y + k) = 146097 * (y - 1970) + off" .
  have lo: "- 506 \<le> off" and hi: "off \<le> 146589"
    unfolding off_def using b4 b100 b400 assms by linarith+
  consider "off < 0" | "0 \<le> off" "off < 146097" | "146097 \<le> off" by linarith
  then show ?thesis
  proof cases
    case 1
    have e: "400 * (DayFromYear y + k) = 146097 * (y - 1971) + (off + 146097)"
      unfolding E by (simp add: algebra_simps)
    have "(400 * (DayFromYear y + k)) div 146097 = y - 1971"
      by (rule int_div_pos_eq [OF e]) (use 1 lo in linarith)+
    then show ?thesis by simp
  next
    case 2
    have "(400 * (DayFromYear y + k)) div 146097 = y - 1970"
      by (rule int_div_pos_eq [OF E]) (use 2 in linarith)+
    then show ?thesis by simp
  next
    case 3
    have e: "400 * (DayFromYear y + k) = 146097 * (y - 1969) + (off - 146097)"
      unfolding E by (simp add: algebra_simps)
    have "(400 * (DayFromYear y + k)) div 146097 = y - 1969"
      by (rule int_div_pos_eq [OF e]) (use 3 hi in linarith)+
    then show ?thesis by simp
  qed
qed

lemma YearFromDay_eq:
  assumes "0 \<le> k" and "k < (if InLeapYear y then 366 else 365)"
  shows "YearFromDay (DayFromYear y + k) = y"
proof -
  define e where "e = 1970 + (400 * (DayFromYear y + k)) div 146097"
  have k: "k \<le> 365" using assms(2) by (simp split: if_splits)
  have up: "DayFromYear y + k < DayFromYear (y + 1)"
    using assms(2) by (simp add: DayFromYear_Suc)
  have down: "DayFromYear (y - 1) \<le> DayFromYear y"
    using DayFromYear_Suc [of "y - 1"] by (simp split: if_splits)
  have Y: "YearFromDay (DayFromYear y + k) =
             (if DayFromYear y + k < DayFromYear e then e - 1
              else if DayFromYear (e + 1) \<le> DayFromYear y + k then e + 1 else e)"
    by (simp add: YearFromDay_def e_def Let_def)
  from year_estimate [OF assms(1) k, of y]
  consider "e = y - 1" | "e = y" | "e = y + 1" by (auto simp add: e_def)
  then show ?thesis
  proof cases
    case 1
    then show ?thesis using down assms(1) by (simp add: Y)
  next
    case 2
    then show ?thesis using up assms(1) by (simp add: Y)
  next
    case 3
    then show ?thesis using up by (simp add: Y)
  qed
qed

lemma month_start_table:
  "month_start leap 0 = 0" "month_start leap 1 = 31"
  "month_start leap 2 = 59 + (if leap then 1 else 0)"
  "month_start leap 3 = 90 + (if leap then 1 else 0)"
  "month_start leap 4 = 120 + (if leap then 1 else 0)"
  "month_start leap 5 = 151 + (if leap then 1 else 0)"
  "month_start leap 6 = 181 + (if leap then 1 else 0)"
  "month_start leap 7 = 212 + (if leap then 1 else 0)"
  "month_start leap 8 = 243 + (if leap then 1 else 0)"
  "month_start leap 9 = 273 + (if leap then 1 else 0)"
  "month_start leap 10 = 304 + (if leap then 1 else 0)"
  "month_start leap 11 = 334 + (if leap then 1 else 0)"
  "month_start leap 12 = 365 + (if leap then 1 else 0)"
  by (simp_all add: month_start_def)

lemma month_cases:
  assumes "1 \<le> m" and "m \<le> 12"
  shows "m = 1 \<or> m = 2 \<or> m = 3 \<or> m = 4 \<or> m = 5 \<or> m = 6
    \<or> m = 7 \<or> m = 8 \<or> m = 9 \<or> m = 10 \<or> m = 11 \<or> m = (12::int)"
  using assms by arith

lemma month_day_roundtrip:
  assumes "1 \<le> m" and "m \<le> 12" and "1 \<le> d" and "d \<le> days_in_month leap m"
  shows "MonthFromDay leap (month_start leap (m - 1) + d - 1) = m - 1
    \<and> 0 \<le> month_start leap (m - 1) + d - 1
    \<and> month_start leap (m - 1) + d - 1 < (if leap then 366 else 365)"
proof -
  from month_cases [OF assms(1,2)]
  consider "m = 1" | "m = 2" | "m = 3" | "m = 4" | "m = 5" | "m = 6"
    | "m = 7" | "m = 8" | "m = 9" | "m = 10" | "m = 11" | "m = 12"
    by blast
  then show ?thesis
  proof cases
    case 1
    then show ?thesis using assms(3,4)
      by (auto simp add: days_in_month_def month_start_table MonthFromDay_def split: if_splits)
  next
    case 2
    then show ?thesis using assms(3,4)
      by (auto simp add: days_in_month_def month_start_table MonthFromDay_def split: if_splits)
  next
    case 3
    then show ?thesis using assms(3,4)
      by (auto simp add: days_in_month_def month_start_table MonthFromDay_def split: if_splits)
  next
    case 4
    then show ?thesis using assms(3,4)
      by (auto simp add: days_in_month_def month_start_table MonthFromDay_def split: if_splits)
  next
    case 5
    then show ?thesis using assms(3,4)
      by (auto simp add: days_in_month_def month_start_table MonthFromDay_def split: if_splits)
  next
    case 6
    then show ?thesis using assms(3,4)
      by (auto simp add: days_in_month_def month_start_table MonthFromDay_def split: if_splits)
  next
    case 7
    then show ?thesis using assms(3,4)
      by (auto simp add: days_in_month_def month_start_table MonthFromDay_def split: if_splits)
  next
    case 8
    then show ?thesis using assms(3,4)
      by (auto simp add: days_in_month_def month_start_table MonthFromDay_def split: if_splits)
  next
    case 9
    then show ?thesis using assms(3,4)
      by (auto simp add: days_in_month_def month_start_table MonthFromDay_def split: if_splits)
  next
    case 10
    then show ?thesis using assms(3,4)
      by (auto simp add: days_in_month_def month_start_table MonthFromDay_def split: if_splits)
  next
    case 11
    then show ?thesis using assms(3,4)
      by (auto simp add: days_in_month_def month_start_table MonthFromDay_def split: if_splits)
  next
    case 12
    then show ?thesis using assms(3,4)
      by (auto simp add: days_in_month_def month_start_table MonthFromDay_def split: if_splits)
  qed
qed

lemma DayFromYear_bounds:
  assumes "100 \<le> y" and "y \<le> 9999"
  shows "- 700000 \<le> DayFromYear y" and "DayFromYear y \<le> 3000000"
proof -
  define q4 where "q4 = (y - 1969) div 4"
  define r4 where "r4 = (y - 1969) mod 4"
  define q100 where "q100 = (y - 1901) div 100"
  define r100 where "r100 = (y - 1901) mod 100"
  define q400 where "q400 = (y - 1601) div 400"
  define r400 where "r400 = (y - 1601) mod 400"
  have f4: "4 * q4 + r4 = y - 1969" and b4: "0 \<le> r4" "r4 < 4"
    by (simp_all add: q4_def r4_def)
  have f100: "100 * q100 + r100 = y - 1901" and b100: "0 \<le> r100" "r100 < 100"
    by (simp_all add: q100_def r100_def)
  have f400: "400 * q400 + r400 = y - 1601" and b400: "0 \<le> r400" "r400 < 400"
    by (simp_all add: q400_def r400_def)
  have D: "DayFromYear y = 365 * (y - 1970) + q4 - q100 + q400"
    by (simp add: DayFromYear_def q4_def q100_def q400_def)
  have q4: "- 468 \<le> q4" "q4 \<le> 2008"
    using assms f4 b4 by linarith+
  have q100: "- 19 \<le> q100" "q100 \<le> 81"
    using assms f100 b100 by linarith+
  have q400: "- 5 \<le> q400" "q400 \<le> 21"
    using assms f400 b400 by linarith+
  show "- 700000 \<le> DayFromYear y"
    unfolding D using assms q4 q100 q400 by simp
  show "DayFromYear y \<le> 3000000"
    unfolding D using assms q4 q100 q400 by simp
qed

lemma MakeDay_in_year:
  assumes "1 \<le> m" and "m \<le> 12"
  shows "MakeDay y (m - 1) d = DayFromYear y + (month_start (InLeapYear y) (m - 1) + d - 1)"
proof -
  have "(m - 1) div 12 = 0" "(m - 1) mod 12 = m - 1"
    using assms by simp_all
  then show ?thesis by (simp add: MakeDay_def Let_def)
qed

lemma time_fields:
  "pad2 (nat 0) = ''00''" "pad3 (nat 0) = ''000''"
  "pad2 (nat (86399000 div 3600000)) = ''23''"
  "pad2 (nat (86399000 div 60000 mod 60)) = ''59''"
  "pad2 (nat (86399000 div 1000 mod 60)) = ''59''"
  "pad3 (nat (86399000 mod 1000)) = ''000''"
  by (simp_all add: pad2_def pad3_def digit_char_def)

lemma toISOString_of_day:
  assumes "0 \<le> y" and "y \<le> 9999" and "1 \<le> m" and "m \<le> 12"
    and "1 \<le> d" and "d \<le> days_in_month (InLeapYear y) m"
    and "0 \<le> r" and "r < 86400000"
  shows "toISOString (Some ((DayFromYear y + (month_start (InLeapYear y) (m - 1) + d - 1)) * msPerDay + r))
     = Inr (pad4 (nat y) @ ''-'' @ pad2 (nat m) @ ''-'' @ pad2 (nat d) @ ''T''
            @ pad2 (nat (r div 3600000)) @ '':'' @ pad2 (nat (r div 60000 mod 60)) @ '':''
            @ pad2 (nat (r div 1000 mod 60)) @ ''.'' @ pad3 (nat (r mod 1000)) @ ''Z'')"
proof -
  define k where "k = month_start (InLeapYear y) (m - 1) + d - 1"
  define t where "t = (DayFromYear y + k) * msPerDay + r"
  note md = month_day_roundtrip [OF assms(3,4,5,6), folded k_def]
  have e: "t = 86400000 * (DayFromYear y + k) + r"
    by (simp add: t_def msPerDay_def)
  have D: "t div msPerDay = DayFromYear y + k" "t mod msPerDay = r"
    unfolding msPerDay_def
    using int_div_pos_eq [OF e assms(7,8)] int_mod_pos_eq [OF e assms(7,8)] by simp_all
  have Y: "YearFromDay (DayFromYear y + k) = y"
    using md by (intro YearFromDay_eq) simp_all
  have M: "MonthFromDay (InLeapYear y) k = m - 1"
    using md by simp
  have dd: "k - month_start (InLeapYear y) (m - 1) + 1 = d"
    by (simp add: k_def)
  have "toISOString (Some t)
     = Inr (pad4 (nat y) @ ''-'' @ pad2 (nat m) @ ''-'' @ pad2 (nat d) @ ''T''
            @ pad2 (nat (r div 3600000)) @ '':'' @ pad2 (nat (r div 60000 mod 60)) @ '':''
            @ pad2 (nat (r div 1000 mod 60)) @ ''.'' @ pad3 (nat (r mod 1000)) @ ''Z'')"
    using assms(1,2) by (simp add: toISOString_def Let_def D Y M dd iso_year_def)
  then show ?thesis by (simp add: t_def k_def add.assoc)
qed

lemma toISOString_day_range:
  assumes "100 \<le> y" and "y \<le> 9999" and "1 \<le> m" and "m \<le> 12"
    and "1 \<le> d" and "d \<le> days_in_month (InLeapYear y) m"
  shows "toISOString (Date_UTC y (m - 1) d 0 0 0)
           = Inr (pad4 (nat y) @ ''-'' @ pad2 (nat m) @ ''-'' @ pad2 (nat d) @ ''T00:00:00.000Z'')"
    and "toISOString (Date_UTC y (m - 1) d 23 59 59)
           = Inr (pad4 (nat y) @ ''-'' @ pad2 (nat m) @ ''-'' @ pad2 (nat d) @ ''T23:59:59.000Z'')"
proof -
  define k where "k = month_start (InLeapYear y) (m - 1) + d - 1"
  note md = month_day_roundtrip [OF assms(3,4,5,6), folded k_def]
  have kb: "0 \<le> k" "k \<le> 365" using md by (simp_all split: if_splits)
  note b = DayFromYear_bounds [OF assms(1,2)]
  have y0: "0 \<le> y" using assms(1) by simp
  have clip: "\<And>r. 0 \<le> r \<Longrightarrow> r < 86400000 \<Longrightarrow>
          TimeClip ((DayFromYear y + k) * msPerDay + r) = Some ((DayFromYear y + k) * msPerDay + r)"
    using b kb by (simp add: TimeClip_def msPerDay_def abs_if)
  have U: "\<And>h mi s. Date_UTC y (m - 1) d h mi s
             = TimeClip ((DayFromYear y + k) * msPerDay + MakeTime h mi s 0)"
    using assms(1) by (simp add: Date_UTC_def Let_def MakeDay_in_year [OF assms(3,4)] k_def)
  have "toISOString (Date_UTC y (m - 1) d 0 0 0)
          = toISOString (Some ((DayFromYear y + k) * msPerDay + 0))"
    using clip [of 0] by (simp add: U MakeTime_def)
  also have "\<dots> = Inr (pad4 (nat y) @ ''-'' @ pad2 (nat m) @ ''-'' @ pad2 (nat d) @ ''T00:00:00.000Z'')"
    unfolding k_def
    using toISOString_of_day [OF y0 assms(2,3,4,5,6), of 0] time_fields by simp
  finally show "toISOString (Date_UTC y (m - 1) d 0 0 0)
           = Inr (pad4 (nat y) @ ''-'' @ pad2 (nat m) @ ''-'' @ pad2 (nat d) @ ''T00:00:00.000Z'')" .
  have "toISOString (Date_UTC y (m - 1) d 23 59 59)
          = toISOString (Some ((DayFromYear y + k) * msPerDay + 86399000))"
    using clip [of 86399000] by (simp add: U MakeTime_def)
  also have "\<dots> = Inr (pad4 (nat y) @ ''-'' @ pad2 (nat m) @ ''-'' @ pad2 (nat d) @ ''T23:59:59.000Z'')"
    unfolding k_def
    using toISOString_of_day [OF y0 assms(2,3,4,5,6), of 86399000] time_fields by simp
  finally show "toISOString (Date_UTC y (m - 1) d 23 59 59)
           = Inr (pad4 (nat y) @ ''-'' @ pad2 (nat m) @ ''-'' @ pad2 (nat d) @ ''T23:59:59.000Z'')" .
qed

lemma below_ten:
  "(k::nat) < 10 \<Longrightarrow>
     k = 0 \<or> k = 1 \<or> k = 2 \<or> k = 3 \<or> k = 4 \<or> k = 5 \<or> k = 6 \<or> k = 7 \<or> k = 8 \<or> k = 9"
  by arith

lemma digit_char_props:
  "is_digit (digit_char n)" "digit_val (digit_char n) = n mod 10"
  "digit_char n \<noteq> CHR ''-''" "CHR ''-'' \<noteq> digit_char n"
proof -
  define k where "k = n mod 10"
  have "k < 10" by (simp add: k_def)
  from below_ten [OF this]
  have "is_digit (''0123456789'' ! k) \<and> digit_val (''0123456789'' ! k) = k
      \<and> ''0123456789'' ! k \<noteq> CHR ''-''"
    by (elim disjE) (simp_all add: is_digit_def digit_val_def)
  then show "is_digit (digit_char n)" "digit_val (digit_char n) = n mod 10"
    "digit_char n \<noteq> CHR ''-''" "CHR ''-'' \<noteq> digit_char n"
    by (auto simp add: digit_char_def k_def)
qed

lemma digits_value_pad2:
  assumes "n < 100"
  shows "digits_value (pad2 n) = n"
proof -
  have "n div 10 < 10" using assms by simp
  then have "n div 10 mod 10 = n div 10" by simp
  then show ?thesis
    by (simp add: digits_value_def pad2_def digit_char_props)
qed

lemma digits_value_pad4:
  assumes "n < 10000"
  shows "digits_value (pad4 n) = n"
proof -
  have a: "n div 1000 mod 10 = n div 1000" using assms by simp
  have b: "n div 1000 = n div 100 div 10" "n div 100 = n div 10 div 10"
    by (simp_all add: div_mult2_eq [symmetric])
  have "digits_value (pad4 n)
          = 10 * (10 * (10 * (n div 1000 mod 10) + n div 100 mod 10) + n div 10 mod 10) + n mod 10"
    by (simp add: digits_value_def pad4_def pad3_def pad2_def digit_char_props)
  also have "\<dots> = 10 * (10 * (10 * (n div 1000) + n div 100 mod 10) + n div 10 mod 10) + n mod 10"
    by (simp only: a)
  also have "\<dots> = 10 * (10 * (10 * (n div 100 div 10) + n div 100 mod 10) + n div 10 mod 10) + n mod 10"
    by (simp only: b(1) [symmetric])
  also have "\<dots> = 10 * (10 * (n div 100) + n div 10 mod 10) + n mod 10"
    by (simp only: mult_div_mod_eq)
  also have "\<dots> = 10 * (10 * (n div 10 div 10) + n div 10 mod 10) + n mod 10"
    by (simp only: b(2) [symmetric])
  also have "\<dots> = n"
    by (simp only: mult_div_mod_eq)
  finally show ?thesis .
qed

lemma js_Number_pad:
  "n < 10000 \<Longrightarrow> js_Number (pad4 n) = Some (int n)"
  "n < 100 \<Longrightarrow> js_Number (pad2 n) = Some (int n)"
proof -
  have "list_all is_digit (pad4 n)" "list_all is_digit (pad2 n)"
    by (simp_all add: pad4_def pad3_def pad2_def digit_char_props)
  then show "n < 10000 \<Longrightarrow> js_Number (pad4 n) = Some (int n)"
    "n < 100 \<Longrightarrow> js_Number (pad2 n) = Some (int n)"
    by (simp_all add: js_Number_def digits_value_pad4 digits_value_pad2)
qed

lemma js_split_none: "c \<notin> set s \<Longrightarrow> js_split c s = [s]"
  by (induction s) auto

lemma js_split_at: "c \<notin> set a \<Longrightarrow> js_split c (a @ c # s) = a # js_split c s"
  by (induction a) auto

lemma no_dash_pad: "CHR ''-'' \<notin> set (pad4 n)" "CHR ''-'' \<notin> set (pad2 n)"
  by (simp_all add: pad4_def pad3_def pad2_def digit_char_props)

text \<open>
  The filter of a calendar date of the years 100 to 9999: both bounds are that date, at
  00:00:00.000 and at 23:59:59.000 UTC.
\<close>

lemma filters_of_date:
  assumes "100 \<le> y" and "y \<le> 9999" and "1 \<le> m" and "m \<le> 12" and "1 \<le> d"
    and "int d \<le> days_in_month (InLeapYear (int y)) (int m)"
  shows "getCurrentFilters fStatus fDoc (date_value y m d)
           = Some (Inr \<lparr>status = nonempty fStatus, doc_type = nonempty fDoc,
                         created_from = Some (date_value y m d @ ''T00:00:00.000Z''),
                         created_to = Some (date_value y m d @ ''T23:59:59.000Z'')\<rparr>)"
proof -
  have d31: "d < 100"
    using month_cases [of "int m"] assms(3,4,6)
    by (auto simp add: days_in_month_def month_start_table split: if_splits)
  have ne: "date_value y m d \<noteq> []"
    by (simp add: date_value_def pad4_def)
  have sp: "js_split CHR ''-'' (date_value y m d) = [pad4 y, pad2 m, pad2 d]"
    by (simp add: date_value_def js_split_at js_split_none no_dash_pad)
  have nu: "js_Number (pad4 y) = Some (int y)" "js_Number (pad2 m) = Some (int m)"
    "js_Number (pad2 d) = Some (int d)"
    using assms(2,4) d31 by (simp_all add: js_Number_pad)
  have iso: "toISOString (Date_UTC (int y) (int m - 1) (int d) 0 0 0)
               = Inr (date_value y m d @ ''T00:00:00.000Z'')"
    "toISOString (Date_UTC (int y) (int m - 1) (int d) 23 59 59)
               = Inr (date_value y m d @ ''T23:59:59.000Z'')"
    using toISOString_day_range [of "int y" "int m" "int d"] assms
    by (simp_all add: date_value_def)
  show ?thesis
    by (simp add: getCurrentFilters_def Let_def ne sp nu iso)
qed

text \<open>The example of the specification, and the request it gives.\<close>

lemma filters_example:
  "getCurrentFilters [] [] ''2024-03-15''
     = Some (Inr \<lparr>status = None, doc_type = None,
                   created_from = Some ''2024-03-15T00:00:00.000Z'',
                   created_to = Some ''2024-03-15T23:59:59.000Z''\<rparr>)"
  "query_params \<lparr>status = None, doc_type = None,
                   created_from = Some ''2024-03-15T00:00:00.000Z'',
                   created_to = Some ''2024-03-15T23:59:59.000Z''\<rparr>
     = [(''created_from'', ''2024-03-15T00:00:00.000Z''),
        (''created_to'', ''2024-03-15T23:59:59.000Z'')]"
  by code_simp+

text \<open>With no date selected, the request carries neither bound.\<close>

lemma filters_without_date:
  "getCurrentFilters fStatus fDoc [] = Some (Inr \<lparr>status = nonempty fStatus, doc_type = nonempty fDoc,
                         created_from = None, created_to = None\<rparr>)"
  "map_of (query_params \<lparr>status = nonempty fStatus, doc_type = nonempty fDoc,
                         created_from = None, created_to = None\<rparr>) ''created_from'' = None"
  "map_of (query_params \<lparr>status = nonempty fStatus, doc_type = nonempty fDoc,
                         created_from = None, created_to = None\<rparr>) ''created_to'' = None"
  by (simp_all add: getCurrentFilters_def query_params_def nonempty_def)

text \<open>
  Claim C8 fails on the code for the dates of the years 0 to 99, which
  \<^verbatim>\<open>Date.UTC\<close> reads as years of the twentieth century: for the selected date
  0050-03-15 the bounds are those of 1950-03-15.
\<close>

theorem C8_two_digit_year:
  "getCurrentFilters [] [] ''0050-03-15''
     = Some (Inr \<lparr>status = None, doc_type = None,
                   created_from = Some ''1950-03-15T00:00:00.000Z'',
                   created_to = Some ''1950-03-15T23:59:59.000Z''\<rparr>)"
  by code_simp

end
